theory Spec2Isabelle
  imports Complex_Main "HOL-Library.Sublist" "HOL-Library.List_Lexorder" "HOL-Library.Multiset"
begin

section \<open>Python values used by app.py\<close>

text \<open>
  A Python \<open>str\<close> is a sequence of Unicode code points, and the Turkish letters of the
  district list lie outside ASCII, so a string is a list of code points. \<open>u\<close> turns
  an ASCII literal into such a list. A \<open>bytes\<close> value is a list of numbers below 256.
\<close>

type_synonym pystr = "nat list"
type_synonym pybytes = "nat list"

definition u :: "string \<Rightarrow> pystr" where
  "u s = map of_char s"

datatype py_error = TypeError | ValueError | IndexError | BinasciiError | RequestError | ParseError

text \<open>Truthiness of an optional string: \<open>None\<close> and \<open>""\<close> are falsy.\<close>

fun truthy :: "pystr option \<Rightarrow> bool" where
  "truthy None = False"
| "truthy (Some s) = (s \<noteq> [])"

text \<open>\<open>a or b\<close> on optional strings: the first operand when truthy, else the second.\<close>

definition py_or :: "pystr option \<Rightarrow> pystr option \<Rightarrow> pystr option" where
  "py_or a b = (if truthy a then a else b)"

text \<open>\<open>x or ""\<close>: the string itself, the empty string for \<open>None\<close>.\<close>

definition or_empty :: "pystr option \<Rightarrow> pystr" where
  "or_empty a = (case a of None \<Rightarrow> [] | Some s \<Rightarrow> s)"

text \<open>\<open>needle in hay\<close> on strings: \<open>needle\<close> occurs as a contiguous part of \<open>hay\<close>.\<close>

fun str_in :: "pystr \<Rightarrow> pystr \<Rightarrow> bool" where
  "str_in needle [] = (needle = [])"
| "str_in needle (c # cs) = (prefix needle (c # cs) \<or> str_in needle cs)"

section \<open>The TTL cache (app.py, lines 75-91)\<close>

text \<open>
  \<open>CACHE\<close> is a dictionary from the key string to a pair (expiry time, payload). The
  clock \<open>time.time()\<close> is an input of each operation: \<open>now\<close>. \<open>cache_get\<close> returns
  the value read (\<open>None\<close> for Python's \<open>None\<close>) together with the dictionary it leaves.
\<close>

type_synonym 'd cache = "pystr \<rightharpoonup> (real \<times> 'd)"

definition CACHE_TTL :: real where
  "CACHE_TTL = 180"

definition cache_get :: "real \<Rightarrow> pystr \<Rightarrow> 'd cache \<Rightarrow> 'd option \<times> 'd cache" where
  "cache_get now key CACHE =
     (case CACHE key of
        None \<Rightarrow> (None, CACHE)
      | Some (expiry, data) \<Rightarrow>
          if now > expiry then (None, CACHE(key := None))
          else (Some data, CACHE))"

definition cache_set :: "real \<Rightarrow> pystr \<Rightarrow> 'd \<Rightarrow> real \<Rightarrow> 'd cache \<Rightarrow> 'd cache" where
  "cache_set now key data ttl CACHE = CACHE(key \<mapsto> (now + ttl, data))"

section \<open>Lower-casing a string\<close>

text \<open>
  \<open>str.lower()\<close> as CPython 3.11 (Unicode 14.0) does it. Every code point has one
  lower-case form, its own value shifted by a fixed amount; \<open>lower_runs\<close> lists the
  code points whose shift is not zero as runs (first, last, step, shift). Two code
  points are special. U+0130, the dotted capital I, becomes \<open>i\<close> followed by the
  combining dot U+0307. U+03A3, the capital sigma, becomes the final sigma U+03C2 when
  a cased letter stands before it and none after it, case-ignorable code points being
  skipped on both sides, and the small sigma U+03C3 otherwise. The three tables are in
  ascending order, so a search stops at the first entry that starts above the code
  point.
\<close>

definition lower_runs :: "(nat \<times> nat \<times> nat \<times> int) list" where
  "lower_runs =
     [
      (0x41, 0x5A, 1, 32), (0xC0, 0xD6, 1, 32), (0xD8, 0xDE, 1, 32),
      (0x100, 0x12E, 2, 1), (0x132, 0x136, 2, 1), (0x139, 0x147, 2, 1),
      (0x14A, 0x176, 2, 1), (0x178, 0x178, 1, - 121), (0x179, 0x17D, 2, 1),
      (0x181, 0x181, 1, 210), (0x182, 0x184, 2, 1), (0x186, 0x186, 1, 206),
      (0x187, 0x187, 1, 1), (0x189, 0x18A, 1, 205), (0x18B, 0x18B, 1, 1),
      (0x18E, 0x18E, 1, 79), (0x18F, 0x18F, 1, 202), (0x190, 0x190, 1, 203),
      (0x191, 0x191, 1, 1), (0x193, 0x193, 1, 205), (0x194, 0x194, 1, 207),
      (0x196, 0x196, 1, 211), (0x197, 0x197, 1, 209), (0x198, 0x198, 1, 1),
      (0x19C, 0x19C, 1, 211), (0x19D, 0x19D, 1, 213), (0x19F, 0x19F, 1, 214),
      (0x1A0, 0x1A4, 2, 1), (0x1A6, 0x1A6, 1, 218), (0x1A7, 0x1A7, 1, 1),
      (0x1A9, 0x1A9, 1, 218), (0x1AC, 0x1AC, 1, 1), (0x1AE, 0x1AE, 1, 218),
      (0x1AF, 0x1AF, 1, 1), (0x1B1, 0x1B2, 1, 217), (0x1B3, 0x1B5, 2, 1),
      (0x1B7, 0x1B7, 1, 219), (0x1B8, 0x1B8, 1, 1), (0x1BC, 0x1BC, 1, 1),
      (0x1C4, 0x1C4, 1, 2), (0x1C5, 0x1C5, 1, 1), (0x1C7, 0x1C7, 1, 2),
      (0x1C8, 0x1C8, 1, 1), (0x1CA, 0x1CA, 1, 2), (0x1CB, 0x1DB, 2, 1),
      (0x1DE, 0x1EE, 2, 1), (0x1F1, 0x1F1, 1, 2), (0x1F2, 0x1F4, 2, 1),
      (0x1F6, 0x1F6, 1, - 97), (0x1F7, 0x1F7, 1, - 56), (0x1F8, 0x21E, 2, 1),
      (0x220, 0x220, 1, - 130), (0x222, 0x232, 2, 1), (0x23A, 0x23A, 1, 10795),
      (0x23B, 0x23B, 1, 1), (0x23D, 0x23D, 1, - 163), (0x23E, 0x23E, 1, 10792),
      (0x241, 0x241, 1, 1), (0x243, 0x243, 1, - 195), (0x244, 0x244, 1, 69),
      (0x245, 0x245, 1, 71), (0x246, 0x24E, 2, 1), (0x370, 0x372, 2, 1),
      (0x376, 0x376, 1, 1), (0x37F, 0x37F, 1, 116), (0x386, 0x386, 1, 38),
      (0x388, 0x38A, 1, 37), (0x38C, 0x38C, 1, 64), (0x38E, 0x38F, 1, 63),
      (0x391, 0x3A1, 1, 32), (0x3A3, 0x3AB, 1, 32), (0x3CF, 0x3CF, 1, 8),
      (0x3D8, 0x3EE, 2, 1), (0x3F4, 0x3F4, 1, - 60), (0x3F7, 0x3F7, 1, 1),
      (0x3F9, 0x3F9, 1, - 7), (0x3FA, 0x3FA, 1, 1), (0x3FD, 0x3FF, 1, - 130),
      (0x400, 0x40F, 1, 80), (0x410, 0x42F, 1, 32), (0x460, 0x480, 2, 1),
      (0x48A, 0x4BE, 2, 1), (0x4C0, 0x4C0, 1, 15), (0x4C1, 0x4CD, 2, 1),
      (0x4D0, 0x52E, 2, 1), (0x531, 0x556, 1, 48), (0x10A0, 0x10C5, 1, 7264),
      (0x10C7, 0x10C7, 1, 7264), (0x10CD, 0x10CD, 1, 7264), (0x13A0, 0x13EF, 1, 38864),
      (0x13F0, 0x13F5, 1, 8), (0x1C90, 0x1CBA, 1, - 3008), (0x1CBD, 0x1CBF, 1, - 3008),
      (0x1E00, 0x1E94, 2, 1), (0x1E9E, 0x1E9E, 1, - 7615), (0x1EA0, 0x1EFE, 2, 1),
      (0x1F08, 0x1F0F, 1, - 8), (0x1F18, 0x1F1D, 1, - 8), (0x1F28, 0x1F2F, 1, - 8),
      (0x1F38, 0x1F3F, 1, - 8), (0x1F48, 0x1F4D, 1, - 8), (0x1F59, 0x1F5F, 2, - 8),
      (0x1F68, 0x1F6F, 1, - 8), (0x1F88, 0x1F8F, 1, - 8), (0x1F98, 0x1F9F, 1, - 8),
      (0x1FA8, 0x1FAF, 1, - 8), (0x1FB8, 0x1FB9, 1, - 8), (0x1FBA, 0x1FBB, 1, - 74),
      (0x1FBC, 0x1FBC, 1, - 9), (0x1FC8, 0x1FCB, 1, - 86), (0x1FCC, 0x1FCC, 1, - 9),
      (0x1FD8, 0x1FD9, 1, - 8), (0x1FDA, 0x1FDB, 1, - 100), (0x1FE8, 0x1FE9, 1, - 8),
      (0x1FEA, 0x1FEB, 1, - 112), (0x1FEC, 0x1FEC, 1, - 7), (0x1FF8, 0x1FF9, 1, - 128),
      (0x1FFA, 0x1FFB, 1, - 126), (0x1FFC, 0x1FFC, 1, - 9), (0x2126, 0x2126, 1, - 7517),
      (0x212A, 0x212A, 1, - 8383), (0x212B, 0x212B, 1, - 8262), (0x2132, 0x2132, 1, 28),
      (0x2160, 0x216F, 1, 16), (0x2183, 0x2183, 1, 1), (0x24B6, 0x24CF, 1, 26),
      (0x2C00, 0x2C2F, 1, 48), (0x2C60, 0x2C60, 1, 1), (0x2C62, 0x2C62, 1, - 10743),
      (0x2C63, 0x2C63, 1, - 3814), (0x2C64, 0x2C64, 1, - 10727), (0x2C67, 0x2C6B, 2, 1),
      (0x2C6D, 0x2C6D, 1, - 10780), (0x2C6E, 0x2C6E, 1, - 10749), (0x2C6F, 0x2C6F, 1, - 10783),
      (0x2C70, 0x2C70, 1, - 10782), (0x2C72, 0x2C72, 1, 1), (0x2C75, 0x2C75, 1, 1),
      (0x2C7E, 0x2C7F, 1, - 10815), (0x2C80, 0x2CE2, 2, 1), (0x2CEB, 0x2CED, 2, 1),
      (0x2CF2, 0x2CF2, 1, 1), (0xA640, 0xA66C, 2, 1), (0xA680, 0xA69A, 2, 1),
      (0xA722, 0xA72E, 2, 1), (0xA732, 0xA76E, 2, 1), (0xA779, 0xA77B, 2, 1),
      (0xA77D, 0xA77D, 1, - 35332), (0xA77E, 0xA786, 2, 1), (0xA78B, 0xA78B, 1, 1),
      (0xA78D, 0xA78D, 1, - 42280), (0xA790, 0xA792, 2, 1), (0xA796, 0xA7A8, 2, 1),
      (0xA7AA, 0xA7AA, 1, - 42308), (0xA7AB, 0xA7AB, 1, - 42319), (0xA7AC, 0xA7AC, 1, - 42315),
      (0xA7AD, 0xA7AD, 1, - 42305), (0xA7AE, 0xA7AE, 1, - 42308), (0xA7B0, 0xA7B0, 1, - 42258),
      (0xA7B1, 0xA7B1, 1, - 42282), (0xA7B2, 0xA7B2, 1, - 42261), (0xA7B3, 0xA7B3, 1, 928),
      (0xA7B4, 0xA7C2, 2, 1), (0xA7C4, 0xA7C4, 1, - 48), (0xA7C5, 0xA7C5, 1, - 42307),
      (0xA7C6, 0xA7C6, 1, - 35384), (0xA7C7, 0xA7C9, 2, 1), (0xA7D0, 0xA7D0, 1, 1),
      (0xA7D6, 0xA7D8, 2, 1), (0xA7F5, 0xA7F5, 1, 1), (0xFF21, 0xFF3A, 1, 32),
      (0x10400, 0x10427, 1, 40), (0x104B0, 0x104D3, 1, 40), (0x10570, 0x1057A, 1, 39),
      (0x1057C, 0x1058A, 1, 39), (0x1058C, 0x10592, 1, 39), (0x10594, 0x10595, 1, 39),
      (0x10C80, 0x10CB2, 1, 64), (0x118A0, 0x118BF, 1, 32), (0x16E40, 0x16E5F, 1, 32),
      (0x1E900, 0x1E921, 1, 34)
     ]"

definition case_ignorable_ranges :: "(nat \<times> nat) list" where
  "case_ignorable_ranges =
     [
      (0x27, 0x27), (0x2E, 0x2E), (0x3A, 0x3A), (0x5E, 0x5E), (0x60, 0x60),
      (0xA8, 0xA8), (0xAD, 0xAD), (0xAF, 0xAF), (0xB4, 0xB4), (0xB7, 0xB8),
      (0x2B0, 0x36F), (0x374, 0x375), (0x37A, 0x37A), (0x384, 0x385), (0x387, 0x387),
      (0x483, 0x489), (0x559, 0x559), (0x55F, 0x55F), (0x591, 0x5BD), (0x5BF, 0x5BF),
      (0x5C1, 0x5C2), (0x5C4, 0x5C5), (0x5C7, 0x5C7), (0x5F4, 0x5F4), (0x600, 0x605),
      (0x610, 0x61A), (0x61C, 0x61C), (0x640, 0x640), (0x64B, 0x65F), (0x670, 0x670),
      (0x6D6, 0x6DD), (0x6DF, 0x6E8), (0x6EA, 0x6ED), (0x70F, 0x70F), (0x711, 0x711),
      (0x730, 0x74A), (0x7A6, 0x7B0), (0x7EB, 0x7F5), (0x7FA, 0x7FA), (0x7FD, 0x7FD),
      (0x816, 0x82D), (0x859, 0x85B), (0x888, 0x888), (0x890, 0x891), (0x898, 0x89F),
      (0x8C9, 0x902), (0x93A, 0x93A), (0x93C, 0x93C), (0x941, 0x948), (0x94D, 0x94D),
      (0x951, 0x957), (0x962, 0x963), (0x971, 0x971), (0x981, 0x981), (0x9BC, 0x9BC),
      (0x9C1, 0x9C4), (0x9CD, 0x9CD), (0x9E2, 0x9E3), (0x9FE, 0x9FE), (0xA01, 0xA02),
      (0xA3C, 0xA3C), (0xA41, 0xA42), (0xA47, 0xA48), (0xA4B, 0xA4D), (0xA51, 0xA51),
      (0xA70, 0xA71), (0xA75, 0xA75), (0xA81, 0xA82), (0xABC, 0xABC), (0xAC1, 0xAC5),
      (0xAC7, 0xAC8), (0xACD, 0xACD), (0xAE2, 0xAE3), (0xAFA, 0xAFF), (0xB01, 0xB01),
      (0xB3C, 0xB3C), (0xB3F, 0xB3F), (0xB41, 0xB44), (0xB4D, 0xB4D), (0xB55, 0xB56),
      (0xB62, 0xB63), (0xB82, 0xB82), (0xBC0, 0xBC0), (0xBCD, 0xBCD), (0xC00, 0xC00),
      (0xC04, 0xC04), (0xC3C, 0xC3C), (0xC3E, 0xC40), (0xC46, 0xC48), (0xC4A, 0xC4D),
      (0xC55, 0xC56), (0xC62, 0xC63), (0xC81, 0xC81), (0xCBC, 0xCBC), (0xCBF, 0xCBF),
      (0xCC6, 0xCC6), (0xCCC, 0xCCD), (0xCE2, 0xCE3), (0xD00, 0xD01), (0xD3B, 0xD3C),
      (0xD41, 0xD44), (0xD4D, 0xD4D), (0xD62, 0xD63), (0xD81, 0xD81), (0xDCA, 0xDCA),
      (0xDD2, 0xDD4), (0xDD6, 0xDD6), (0xE31, 0xE31), (0xE34, 0xE3A), (0xE46, 0xE4E),
      (0xEB1, 0xEB1), (0xEB4, 0xEBC), (0xEC6, 0xEC6), (0xEC8, 0xECD), (0xF18, 0xF19),
      (0xF35, 0xF35), (0xF37, 0xF37), (0xF39, 0xF39), (0xF71, 0xF7E), (0xF80, 0xF84),
      (0xF86, 0xF87), (0xF8D, 0xF97), (0xF99, 0xFBC), (0xFC6, 0xFC6), (0x102D, 0x1030),
      (0x1032, 0x1037), (0x1039, 0x103A), (0x103D, 0x103E), (0x1058, 0x1059), (0x105E, 0x1060),
      (0x1071, 0x1074), (0x1082, 0x1082), (0x1085, 0x1086), (0x108D, 0x108D), (0x109D, 0x109D),
      (0x10FC, 0x10FC), (0x135D, 0x135F), (0x1712, 0x1714), (0x1732, 0x1733), (0x1752, 0x1753),
      (0x1772, 0x1773), (0x17B4, 0x17B5), (0x17B7, 0x17BD), (0x17C6, 0x17C6), (0x17C9, 0x17D3),
      (0x17D7, 0x17D7), (0x17DD, 0x17DD), (0x180B, 0x180F), (0x1843, 0x1843), (0x1885, 0x1886),
      (0x18A9, 0x18A9), (0x1920, 0x1922), (0x1927, 0x1928), (0x1932, 0x1932), (0x1939, 0x193B),
      (0x1A17, 0x1A18), (0x1A1B, 0x1A1B), (0x1A56, 0x1A56), (0x1A58, 0x1A5E), (0x1A60, 0x1A60),
      (0x1A62, 0x1A62), (0x1A65, 0x1A6C), (0x1A73, 0x1A7C), (0x1A7F, 0x1A7F), (0x1AA7, 0x1AA7),
      (0x1AB0, 0x1ACE), (0x1B00, 0x1B03), (0x1B34, 0x1B34), (0x1B36, 0x1B3A), (0x1B3C, 0x1B3C),
      (0x1B42, 0x1B42), (0x1B6B, 0x1B73), (0x1B80, 0x1B81), (0x1BA2, 0x1BA5), (0x1BA8, 0x1BA9),
      (0x1BAB, 0x1BAD), (0x1BE6, 0x1BE6), (0x1BE8, 0x1BE9), (0x1BED, 0x1BED), (0x1BEF, 0x1BF1),
      (0x1C2C, 0x1C33), (0x1C36, 0x1C37), (0x1C78, 0x1C7D), (0x1CD0, 0x1CD2), (0x1CD4, 0x1CE0),
      (0x1CE2, 0x1CE8), (0x1CED, 0x1CED), (0x1CF4, 0x1CF4), (0x1CF8, 0x1CF9), (0x1D2C, 0x1D6A),
      (0x1D78, 0x1D78), (0x1D9B, 0x1DFF), (0x1FBD, 0x1FBD), (0x1FBF, 0x1FC1), (0x1FCD, 0x1FCF),
      (0x1FDD, 0x1FDF), (0x1FED, 0x1FEF), (0x1FFD, 0x1FFE), (0x200B, 0x200F), (0x2018, 0x2019),
      (0x2024, 0x2024), (0x2027, 0x2027), (0x202A, 0x202E), (0x2060, 0x2064), (0x2066, 0x206F),
      (0x2071, 0x2071), (0x207F, 0x207F), (0x2090, 0x209C), (0x20D0, 0x20F0), (0x2C7C, 0x2C7D),
      (0x2CEF, 0x2CF1), (0x2D6F, 0x2D6F), (0x2D7F, 0x2D7F), (0x2DE0, 0x2DFF), (0x2E2F, 0x2E2F),
      (0x3005, 0x3005), (0x302A, 0x302D), (0x3031, 0x3035), (0x303B, 0x303B), (0x3099, 0x309E),
      (0x30FC, 0x30FE), (0xA015, 0xA015), (0xA4F8, 0xA4FD), (0xA60C, 0xA60C), (0xA66F, 0xA672),
      (0xA674, 0xA67D), (0xA67F, 0xA67F), (0xA69C, 0xA69F), (0xA6F0, 0xA6F1), (0xA700, 0xA721),
      (0xA770, 0xA770), (0xA788, 0xA78A), (0xA7F2, 0xA7F4), (0xA7F8, 0xA7F9), (0xA802, 0xA802),
      (0xA806, 0xA806), (0xA80B, 0xA80B), (0xA825, 0xA826), (0xA82C, 0xA82C), (0xA8C4, 0xA8C5),
      (0xA8E0, 0xA8F1), (0xA8FF, 0xA8FF), (0xA926, 0xA92D), (0xA947, 0xA951), (0xA980, 0xA982),
      (0xA9B3, 0xA9B3), (0xA9B6, 0xA9B9), (0xA9BC, 0xA9BD), (0xA9CF, 0xA9CF), (0xA9E5, 0xA9E6),
      (0xAA29, 0xAA2E), (0xAA31, 0xAA32), (0xAA35, 0xAA36), (0xAA43, 0xAA43), (0xAA4C, 0xAA4C),
      (0xAA70, 0xAA70), (0xAA7C, 0xAA7C), (0xAAB0, 0xAAB0), (0xAAB2, 0xAAB4), (0xAAB7, 0xAAB8),
      (0xAABE, 0xAABF), (0xAAC1, 0xAAC1), (0xAADD, 0xAADD), (0xAAEC, 0xAAED), (0xAAF3, 0xAAF4),
      (0xAAF6, 0xAAF6), (0xAB5B, 0xAB5F), (0xAB69, 0xAB6B), (0xABE5, 0xABE5), (0xABE8, 0xABE8),
      (0xABED, 0xABED), (0xFB1E, 0xFB1E), (0xFBB2, 0xFBC2), (0xFE00, 0xFE0F), (0xFE13, 0xFE13),
      (0xFE20, 0xFE2F), (0xFE52, 0xFE52), (0xFE55, 0xFE55), (0xFEFF, 0xFEFF), (0xFF07, 0xFF07),
      (0xFF0E, 0xFF0E), (0xFF1A, 0xFF1A), (0xFF3E, 0xFF3E), (0xFF40, 0xFF40), (0xFF70, 0xFF70),
      (0xFF9E, 0xFF9F), (0xFFE3, 0xFFE3), (0xFFF9, 0xFFFB), (0x101FD, 0x101FD), (0x102E0, 0x102E0),
      (0x10376, 0x1037A), (0x10780, 0x10785), (0x10787, 0x107B0), (0x107B2, 0x107BA), (0x10A01, 0x10A03),
      (0x10A05, 0x10A06), (0x10A0C, 0x10A0F), (0x10A38, 0x10A3A), (0x10A3F, 0x10A3F), (0x10AE5, 0x10AE6),
      (0x10D24, 0x10D27), (0x10EAB, 0x10EAC), (0x10F46, 0x10F50), (0x10F82, 0x10F85), (0x11001, 0x11001),
      (0x11038, 0x11046), (0x11070, 0x11070), (0x11073, 0x11074), (0x1107F, 0x11081), (0x110B3, 0x110B6),
      (0x110B9, 0x110BA), (0x110BD, 0x110BD), (0x110C2, 0x110C2), (0x110CD, 0x110CD), (0x11100, 0x11102),
      (0x11127, 0x1112B), (0x1112D, 0x11134), (0x11173, 0x11173), (0x11180, 0x11181), (0x111B6, 0x111BE),
      (0x111C9, 0x111CC), (0x111CF, 0x111CF), (0x1122F, 0x11231), (0x11234, 0x11234), (0x11236, 0x11237),
      (0x1123E, 0x1123E), (0x112DF, 0x112DF), (0x112E3, 0x112EA), (0x11300, 0x11301), (0x1133B, 0x1133C),
      (0x11340, 0x11340), (0x11366, 0x1136C), (0x11370, 0x11374), (0x11438, 0x1143F), (0x11442, 0x11444),
      (0x11446, 0x11446), (0x1145E, 0x1145E), (0x114B3, 0x114B8), (0x114BA, 0x114BA), (0x114BF, 0x114C0),
      (0x114C2, 0x114C3), (0x115B2, 0x115B5), (0x115BC, 0x115BD), (0x115BF, 0x115C0), (0x115DC, 0x115DD),
      (0x11633, 0x1163A), (0x1163D, 0x1163D), (0x1163F, 0x11640), (0x116AB, 0x116AB), (0x116AD, 0x116AD),
      (0x116B0, 0x116B5), (0x116B7, 0x116B7), (0x1171D, 0x1171F), (0x11722, 0x11725), (0x11727, 0x1172B),
      (0x1182F, 0x11837), (0x11839, 0x1183A), (0x1193B, 0x1193C), (0x1193E, 0x1193E), (0x11943, 0x11943),
      (0x119D4, 0x119D7), (0x119DA, 0x119DB), (0x119E0, 0x119E0), (0x11A01, 0x11A0A), (0x11A33, 0x11A38),
      (0x11A3B, 0x11A3E), (0x11A47, 0x11A47), (0x11A51, 0x11A56), (0x11A59, 0x11A5B), (0x11A8A, 0x11A96),
      (0x11A98, 0x11A99), (0x11C30, 0x11C36), (0x11C38, 0x11C3D), (0x11C3F, 0x11C3F), (0x11C92, 0x11CA7),
      (0x11CAA, 0x11CB0), (0x11CB2, 0x11CB3), (0x11CB5, 0x11CB6), (0x11D31, 0x11D36), (0x11D3A, 0x11D3A),
      (0x11D3C, 0x11D3D), (0x11D3F, 0x11D45), (0x11D47, 0x11D47), (0x11D90, 0x11D91), (0x11D95, 0x11D95),
      (0x11D97, 0x11D97), (0x11EF3, 0x11EF4), (0x13430, 0x13438), (0x16AF0, 0x16AF4), (0x16B30, 0x16B36),
      (0x16B40, 0x16B43), (0x16F4F, 0x16F4F), (0x16F8F, 0x16F9F), (0x16FE0, 0x16FE1), (0x16FE3, 0x16FE4),
      (0x1AFF0, 0x1AFF3), (0x1AFF5, 0x1AFFB), (0x1AFFD, 0x1AFFE), (0x1BC9D, 0x1BC9E), (0x1BCA0, 0x1BCA3),
      (0x1CF00, 0x1CF2D), (0x1CF30, 0x1CF46), (0x1D167, 0x1D169), (0x1D173, 0x1D182), (0x1D185, 0x1D18B),
      (0x1D1AA, 0x1D1AD), (0x1D242, 0x1D244), (0x1DA00, 0x1DA36), (0x1DA3B, 0x1DA6C), (0x1DA75, 0x1DA75),
      (0x1DA84, 0x1DA84), (0x1DA9B, 0x1DA9F), (0x1DAA1, 0x1DAAF), (0x1E000, 0x1E006), (0x1E008, 0x1E018),
      (0x1E01B, 0x1E021), (0x1E023, 0x1E024), (0x1E026, 0x1E02A), (0x1E130, 0x1E13D), (0x1E2AE, 0x1E2AE),
      (0x1E2EC, 0x1E2EF), (0x1E8D0, 0x1E8D6), (0x1E944, 0x1E94B), (0x1F3FB, 0x1F3FF), (0xE0001, 0xE0001),
      (0xE0020, 0xE007F), (0xE0100, 0xE01EF)
     ]"

definition cased_ranges :: "(nat \<times> nat) list" where
  "cased_ranges =
     [
      (0x41, 0x5A), (0x61, 0x7A), (0xAA, 0xAA), (0xB5, 0xB5), (0xBA, 0xBA),
      (0xC0, 0xD6), (0xD8, 0xF6), (0xF8, 0x1BA), (0x1BC, 0x1BF), (0x1C4, 0x293),
      (0x295, 0x2B8), (0x2C0, 0x2C1), (0x2E0, 0x2E4), (0x345, 0x345), (0x370, 0x373),
      (0x376, 0x377), (0x37A, 0x37D), (0x37F, 0x37F), (0x386, 0x386), (0x388, 0x38A),
      (0x38C, 0x38C), (0x38E, 0x3A1), (0x3A3, 0x3F5), (0x3F7, 0x481), (0x48A, 0x52F),
      (0x531, 0x556), (0x560, 0x588), (0x10A0, 0x10C5), (0x10C7, 0x10C7), (0x10CD, 0x10CD),
      (0x10D0, 0x10FA), (0x10FD, 0x10FF), (0x13A0, 0x13F5), (0x13F8, 0x13FD), (0x1C80, 0x1C88),
      (0x1C90, 0x1CBA), (0x1CBD, 0x1CBF), (0x1D00, 0x1DBF), (0x1E00, 0x1F15), (0x1F18, 0x1F1D),
      (0x1F20, 0x1F45), (0x1F48, 0x1F4D), (0x1F50, 0x1F57), (0x1F59, 0x1F59), (0x1F5B, 0x1F5B),
      (0x1F5D, 0x1F5D), (0x1F5F, 0x1F7D), (0x1F80, 0x1FB4), (0x1FB6, 0x1FBC), (0x1FBE, 0x1FBE),
      (0x1FC2, 0x1FC4), (0x1FC6, 0x1FCC), (0x1FD0, 0x1FD3), (0x1FD6, 0x1FDB), (0x1FE0, 0x1FEC),
      (0x1FF2, 0x1FF4), (0x1FF6, 0x1FFC), (0x2071, 0x2071), (0x207F, 0x207F), (0x2090, 0x209C),
      (0x2102, 0x2102), (0x2107, 0x2107), (0x210A, 0x2113), (0x2115, 0x2115), (0x2119, 0x211D),
      (0x2124, 0x2124), (0x2126, 0x2126), (0x2128, 0x2128), (0x212A, 0x212D), (0x212F, 0x2134),
      (0x2139, 0x2139), (0x213C, 0x213F), (0x2145, 0x2149), (0x214E, 0x214E), (0x2160, 0x217F),
      (0x2183, 0x2184), (0x24B6, 0x24E9), (0x2C00, 0x2CE4), (0x2CEB, 0x2CEE), (0x2CF2, 0x2CF3),
      (0x2D00, 0x2D25), (0x2D27, 0x2D27), (0x2D2D, 0x2D2D), (0xA640, 0xA66D), (0xA680, 0xA69D),
      (0xA722, 0xA787), (0xA78B, 0xA78E), (0xA790, 0xA7CA), (0xA7D0, 0xA7D1), (0xA7D3, 0xA7D3),
      (0xA7D5, 0xA7D9), (0xA7F5, 0xA7F6), (0xA7F8, 0xA7FA), (0xAB30, 0xAB5A), (0xAB5C, 0xAB68),
      (0xAB70, 0xABBF), (0xFB00, 0xFB06), (0xFB13, 0xFB17), (0xFF21, 0xFF3A), (0xFF41, 0xFF5A),
      (0x10400, 0x1044F), (0x104B0, 0x104D3), (0x104D8, 0x104FB), (0x10570, 0x1057A), (0x1057C, 0x1058A),
      (0x1058C, 0x10592), (0x10594, 0x10595), (0x10597, 0x105A1), (0x105A3, 0x105B1), (0x105B3, 0x105B9),
      (0x105BB, 0x105BC), (0x10780, 0x10780), (0x10783, 0x10785), (0x10787, 0x107B0), (0x107B2, 0x107BA),
      (0x10C80, 0x10CB2), (0x10CC0, 0x10CF2), (0x118A0, 0x118DF), (0x16E40, 0x16E7F), (0x1D400, 0x1D454),
      (0x1D456, 0x1D49C), (0x1D49E, 0x1D49F), (0x1D4A2, 0x1D4A2), (0x1D4A5, 0x1D4A6), (0x1D4A9, 0x1D4AC),
      (0x1D4AE, 0x1D4B9), (0x1D4BB, 0x1D4BB), (0x1D4BD, 0x1D4C3), (0x1D4C5, 0x1D505), (0x1D507, 0x1D50A),
      (0x1D50D, 0x1D514), (0x1D516, 0x1D51C), (0x1D51E, 0x1D539), (0x1D53B, 0x1D53E), (0x1D540, 0x1D544),
      (0x1D546, 0x1D546), (0x1D54A, 0x1D550), (0x1D552, 0x1D6A5), (0x1D6A8, 0x1D6C0), (0x1D6C2, 0x1D6DA),
      (0x1D6DC, 0x1D6FA), (0x1D6FC, 0x1D714), (0x1D716, 0x1D734), (0x1D736, 0x1D74E), (0x1D750, 0x1D76E),
      (0x1D770, 0x1D788), (0x1D78A, 0x1D7A8), (0x1D7AA, 0x1D7C2), (0x1D7C4, 0x1D7CB), (0x1DF00, 0x1DF09),
      (0x1DF0B, 0x1DF1E), (0x1E900, 0x1E943), (0x1F130, 0x1F149), (0x1F150, 0x1F169), (0x1F170, 0x1F189)
     ]"

fun in_ranges :: "(nat \<times> nat) list \<Rightarrow> nat \<Rightarrow> bool" where
  "in_ranges [] c = False"
| "in_ranges ((lo, hi) # rs) c =
     (if c < lo then False else if c \<le> hi then True else in_ranges rs c)"

fun run_lookup :: "(nat \<times> nat \<times> nat \<times> int) list \<Rightarrow> nat \<Rightarrow> nat" where
  "run_lookup [] c = c"
| "run_lookup ((lo, hi, step, shift) # rs) c =
     (if c < lo then c
      else if c \<le> hi \<and> (c - lo) mod step = 0 then nat (int c + shift)
      else run_lookup rs c)"

definition to_lower :: "nat \<Rightarrow> nat" where
  "to_lower c = run_lookup lower_runs c"

definition is_case_ignorable :: "nat \<Rightarrow> bool" where
  "is_case_ignorable c = in_ranges case_ignorable_ranges c"

definition is_cased :: "nat \<Rightarrow> bool" where
  "is_cased c = in_ranges cased_ranges c"

text \<open>
  \<open>before\<close> holds the code points to the left of the sigma, the nearest first;
  \<open>after\<close> holds those to its right.
\<close>

definition handle_capital_sigma :: "pystr \<Rightarrow> pystr \<Rightarrow> nat" where
  "handle_capital_sigma before after =
     (case dropWhile is_case_ignorable before of
        [] \<Rightarrow> 0x3C3
      | b # _ \<Rightarrow>
          if is_cased b then
            (case dropWhile is_case_ignorable after of
               [] \<Rightarrow> 0x3C2
             | a # _ \<Rightarrow> if is_cased a then 0x3C3 else 0x3C2)
          else 0x3C3)"

fun lower_from :: "pystr \<Rightarrow> pystr \<Rightarrow> pystr" where
  "lower_from before [] = []"
| "lower_from before (c # rest) =
     (if c = 0x3A3 then [handle_capital_sigma before rest]
      else if c = 0x130 then [0x69, 0x307]
      else [to_lower c]) @ lower_from (c # before) rest"

definition py_lower :: "pystr \<Rightarrow> pystr" where
  "py_lower s = lower_from [] s"

section \<open>The relevance filter (app.py, lines 21-40)\<close>

definition IST_DISTRICTS :: "pystr list" where
  "IST_DISTRICTS =
     [
      u ''adalar'',
      u ''arnavutk'' @ [0xF6] @ u ''y'',
      u ''ata'' @ [0x15F] @ u ''ehir'',
      u ''avc'' @ [0x131] @ u ''lar'',
      u ''ba'' @ [0x11F] @ u ''c'' @ [0x131] @ u ''lar'',
      u ''bah'' @ [0xE7] @ u ''elievler'',
      u ''bak'' @ [0x131] @ u ''rk'' @ [0xF6] @ u ''y'',
      u ''ba'' @ [0x15F] @ u ''ak'' @ [0x15F] @ u ''ehir'',
      u ''bayrampa'' @ [0x15F] @ u ''a'',
      u ''be'' @ [0x15F] @ u ''ikta'' @ [0x15F],
      u ''beykoz'',
      u ''beylikd'' @ [0xFC] @ u ''z'' @ [0xFC],
      u ''beyo'' @ [0x11F] @ u ''lu'',
      u ''b'' @ [0xFC] @ u ''y'' @ [0xFC] @ u ''k'' @ [0xE7] @ u ''ekmece'',
      [0xE7] @ u ''atalca'',
      [0xE7] @ u ''ekmek'' @ [0xF6] @ u ''y'',
      u ''esenler'',
      u ''esenyurt'',
      u ''ey'' @ [0xFC] @ u ''psultan'',
      u ''fatih'',
      u ''gaziosmanpa'' @ [0x15F] @ u ''a'',
      u ''g'' @ [0xFC] @ u ''ng'' @ [0xF6] @ u ''ren'',
      u ''kad'' @ [0x131] @ u ''k'' @ [0xF6] @ u ''y'',
      u ''ka'' @ [0x11F, 0x131] @ u ''thane'',
      u ''kartal'',
      u ''k'' @ [0xFC, 0xE7, 0xFC] @ u ''k'' @ [0xE7] @ u ''ekmece'',
      u ''maltepe'',
      u ''pendik'',
      u ''sancaktepe'',
      u ''sar'' @ [0x131] @ u ''yer'',
      u ''silivri'',
      u ''sultanbeyli'',
      u ''sultangazi'',
      [0x15F] @ u ''ile'',
      [0x15F] @ u ''i'' @ [0x15F] @ u ''li'',
      u ''tuzla'',
      [0xFC] @ u ''mraniye'',
      [0xFC] @ u ''sk'' @ [0xFC] @ u ''dar'',
      u ''zeytinburnu''
     ]"

text \<open>
  The second literal of line 36 is \<open>i\<close>, U+0307, \<open>stanbul\<close>: the lower-case form of
  a title written with the dotted capital I.
\<close>

definition is_istanbul_related :: "pystr option \<Rightarrow> pystr option \<Rightarrow> bool" where
  "is_istanbul_related title link =
     (let t = py_lower (or_empty title);
          l = py_lower (or_empty link)
      in if str_in (u ''istanbul'') t \<or> str_in ([0x69, 0x307] @ u ''stanbul'') t
            \<or> str_in (u ''istanbul'') l
         then True
         else list_ex (\<lambda>d. str_in d t) IST_DISTRICTS)"

text \<open>
  The capitals \<open>A\<close> to \<open>Z\<close> and the Turkish capitals C-cedilla, G-breve,
  O-diaeresis, S-cedilla and U-diaeresis, each replaced by its small letter; every other
  code point as it is. Two strings of the same image spell the same text up to the case
  of these letters.
\<close>

definition fold_cp :: "nat \<Rightarrow> nat" where
  "fold_cp c =
     (if 0x41 \<le> c \<and> c \<le> 0x5A then c + 32
      else if c = 0xC7 then 0xE7
      else if c = 0xD6 then 0xF6
      else if c = 0xDC then 0xFC
      else if c = 0x11E then 0x11F
      else if c = 0x15E then 0x15F
      else c)"

section \<open>Library functions used by the link resolver\<close>

text \<open>
  \<open>s.split(sep)\<close> for a non-empty separator: the pieces between the occurrences of
  \<open>sep\<close>, found from left to right without overlap. \<open>cur\<close> is the piece being read.
  Every separator in app.py is a non-empty literal.
\<close>

function py_split_from :: "pystr \<Rightarrow> pystr \<Rightarrow> pystr \<Rightarrow> pystr list" where
  "py_split_from sep cur s =
     (if sep \<noteq> [] \<and> prefix sep s then cur # py_split_from sep [] (drop (length sep) s)
      else (case s of
              [] \<Rightarrow> [cur]
            | c # cs \<Rightarrow> py_split_from sep (cur @ [c]) cs))"
  by pat_completeness auto
termination
  by (relation "measure (\<lambda>(sep, cur, s). length s)") (auto simp: prefix_def)

definition py_split :: "pystr \<Rightarrow> pystr \<Rightarrow> pystr list" where
  "py_split sep s = py_split_from sep [] s"

text \<open>\<open>xs[i]\<close> for a non-negative index: \<open>IndexError\<close> out of range.\<close>

definition py_index :: "'a list \<Rightarrow> nat \<Rightarrow> py_error + 'a" where
  "py_index xs i = (if i < length xs then Inr (xs ! i) else Inl IndexError)"

text \<open>
  \<open>base64.b64decode(s)\<close> of a \<open>str\<close>, with \<open>validate\<close> left false, as CPython 3.11
  does it: a string with a code point above 127 is refused with \<open>ValueError\<close>;
  otherwise \<open>binascii.a2b_base64\<close> reads the characters one by one, skips every
  character outside the standard alphabet, stops at a complete run of padding, and
  raises \<open>binascii.Error\<close> when the input ends inside a group of four. Its state is
  the position in the group (\<open>quad_pos\<close>), the bits left over from the previous
  character (\<open>leftchar\<close>) and the number of padding characters seen (\<open>pads\<close>).
\<close>

definition table_a2b_base64 :: "nat \<Rightarrow> nat option" where
  "table_a2b_base64 c =
     (if 65 \<le> c \<and> c \<le> 90 then Some (c - 65)
      else if 97 \<le> c \<and> c \<le> 122 then Some (c - 97 + 26)
      else if 48 \<le> c \<and> c \<le> 57 then Some (c - 48 + 52)
      else if c = 43 then Some 62
      else if c = 47 then Some 63
      else None)"

definition emit :: "nat \<Rightarrow> py_error + pybytes \<Rightarrow> py_error + pybytes" where
  "emit b r = (case r of Inl e \<Rightarrow> Inl e | Inr bs \<Rightarrow> Inr (b # bs))"

fun a2b_base64 :: "nat \<Rightarrow> nat \<Rightarrow> nat \<Rightarrow> pystr \<Rightarrow> py_error + pybytes" where
  "a2b_base64 quad_pos leftchar pads [] =
     (if quad_pos = 0 then Inr [] else Inl BinasciiError)"
| "a2b_base64 quad_pos leftchar pads (c # cs) =
     (if c = 61 then
        (if quad_pos \<ge> 2 then
           (if quad_pos + (pads + 1) \<ge> 4 then Inr []
            else a2b_base64 quad_pos leftchar (pads + 1) cs)
         else a2b_base64 quad_pos leftchar pads cs)
      else (case table_a2b_base64 c of
              None \<Rightarrow> a2b_base64 quad_pos leftchar pads cs
            | Some this_ch \<Rightarrow>
                if quad_pos = 0 then a2b_base64 1 this_ch 0 cs
                else if quad_pos = 1 then
                  emit (leftchar * 4 + this_ch div 16) (a2b_base64 2 (this_ch mod 16) 0 cs)
                else if quad_pos = 2 then
                  emit (leftchar * 16 + this_ch div 4) (a2b_base64 3 (this_ch mod 4) 0 cs)
                else emit (leftchar * 64 + this_ch) (a2b_base64 0 0 0 cs)))"

definition b64decode :: "pystr \<Rightarrow> py_error + pybytes" where
  "b64decode s =
     (if list_ex (\<lambda>c. c \<ge> 128) s then Inl ValueError else a2b_base64 0 0 0 s)"

text \<open>
  \<open>decoded.decode("utf-8", errors="ignore")\<close>, as CPython's decoder does it: a byte
  that cannot start a sequence is dropped; a sequence broken by a byte that cannot
  continue it is dropped up to that byte, which is read again; a sequence cut off by
  the end of the input is dropped. Over-long forms, surrogates and values above
  U+10FFFF are refused at the second byte.
\<close>

definition is_cont :: "nat \<Rightarrow> bool" where
  "is_cont b = (0x80 \<le> b \<and> b \<le> 0xBF)"

fun utf8_decode_ignore :: "pybytes \<Rightarrow> pystr" where
  "utf8_decode_ignore [] = []"
| "utf8_decode_ignore (b # r) =
     (if b < 0x80 then b # utf8_decode_ignore r
      else if b < 0xC2 then utf8_decode_ignore r
      else if b < 0xE0 then
        (case r of
           [] \<Rightarrow> []
         | b2 # r2 \<Rightarrow>
             if \<not> is_cont b2 then utf8_decode_ignore r
             else (b mod 32 * 64 + b2 mod 64) # utf8_decode_ignore r2)
      else if b < 0xF0 then
        (case r of
           [] \<Rightarrow> []
         | b2 # r2 \<Rightarrow>
             if \<not> is_cont b2 \<or> (if b2 < 0xA0 then b = 0xE0 else b = 0xED)
             then utf8_decode_ignore r
             else (case r2 of
                     [] \<Rightarrow> []
                   | b3 # r3 \<Rightarrow>
                       if \<not> is_cont b3 then utf8_decode_ignore r2
                       else (b mod 16 * 4096 + b2 mod 64 * 64 + b3 mod 64)
                              # utf8_decode_ignore r3))
      else if b < 0xF5 then
        (case r of
           [] \<Rightarrow> []
         | b2 # r2 \<Rightarrow>
             if \<not> is_cont b2 \<or> (if b2 < 0x90 then b = 0xF0 else b = 0xF4)
             then utf8_decode_ignore r
             else (case r2 of
                     [] \<Rightarrow> []
                   | b3 # r3 \<Rightarrow>
                       if \<not> is_cont b3 then utf8_decode_ignore r2
                       else (case r3 of
                               [] \<Rightarrow> []
                             | b4 # r4 \<Rightarrow>
                                 if \<not> is_cont b4 then utf8_decode_ignore r3
                                 else (b mod 8 * 262144 + b2 mod 64 * 4096
                                        + b3 mod 64 * 64 + b4 mod 64)
                                        # utf8_decode_ignore r4)))
      else utf8_decode_ignore r)"

text \<open>
  \<open>re.search(r"(https?://[^\s|\"'>]+)", text)\<close>: the leftmost place where
  \<open>http://\<close> or \<open>https://\<close> is followed by at least one character that is neither
  white space nor one of \<open>| " ' >\<close>; the group is the scheme and the longest run of
  such characters. \<open>is_space_cp\<close> is the class \<open>\s\<close> of a \<open>str\<close> pattern.
\<close>

definition is_space_cp :: "nat \<Rightarrow> bool" where
  "is_space_cp c =
     (0x09 \<le> c \<and> c \<le> 0x0D \<or> 0x1C \<le> c \<and> c \<le> 0x20 \<or> c = 0x85 \<or> c = 0xA0 \<or> c = 0x1680
      \<or> 0x2000 \<le> c \<and> c \<le> 0x200A \<or> c = 0x2028 \<or> c = 0x2029 \<or> c = 0x202F
      \<or> c = 0x205F \<or> c = 0x3000)"

definition url_char :: "nat \<Rightarrow> bool" where
  "url_char c = (\<not> is_space_cp c \<and> c \<noteq> 0x7C \<and> c \<noteq> 0x22 \<and> c \<noteq> 0x27 \<and> c \<noteq> 0x3E)"

definition match_url_at :: "pystr \<Rightarrow> pystr option" where
  "match_url_at s =
     (if prefix (u ''https://'') s \<and> takeWhile url_char (drop 8 s) \<noteq> []
      then Some (u ''https://'' @ takeWhile url_char (drop 8 s))
      else if prefix (u ''http://'') s \<and> takeWhile url_char (drop 7 s) \<noteq> []
      then Some (u ''http://'' @ takeWhile url_char (drop 7 s))
      else None)"

fun re_search_url :: "pystr \<Rightarrow> pystr option" where
  "re_search_url [] = None"
| "re_search_url (c # cs) =
     (case match_url_at (c # cs) of
        Some m \<Rightarrow> Some m
      | None \<Rightarrow> re_search_url cs)"

section \<open>The link resolver (app.py, lines 94-105)\<close>

text \<open>
  \<open>decode_url_try\<close> is the body of the \<open>try\<close>; \<open>decode_url\<close> adds the handler
  \<open>except: return source_url\<close>, which catches every exception.
\<close>

definition decode_url_try :: "pystr \<Rightarrow> py_error + pystr" where
  "decode_url_try source_url =
     (if \<not> str_in (u ''news.google.com'') source_url \<or> \<not> str_in (u ''articles/'') source_url
      then Inr source_url
      else
        (case py_index (py_split (u ''articles/'') source_url) 1 of
           Inl e \<Rightarrow> Inl e
         | Inr part \<Rightarrow>
        (case py_index (py_split (u ''?'') part) 0 of
           Inl e \<Rightarrow> Inl e
         | Inr token \<Rightarrow>
        (case b64decode (token @ u ''==='') of
           Inl e \<Rightarrow> Inl e
         | Inr decoded \<Rightarrow>
        (case re_search_url (utf8_decode_ignore decoded) of
           Some m \<Rightarrow> Inr m
         | None \<Rightarrow> Inr source_url)))))"

definition decode_url :: "pystr \<Rightarrow> py_error + pystr" where
  "decode_url source_url =
     (case decode_url_try source_url of
        Inl e \<Rightarrow> Inr source_url
      | Inr r \<Rightarrow> Inr r)"

text \<open>
  The host of a URL in the words of the specification: the text between \<open>://\<close> and the
  next \<open>/\<close>, \<open>?\<close> or \<open>#\<close>. The source has no such function; it is used only to state
  the specification's sentence about hosts.
\<close>

definition spec_url_host :: "pystr \<Rightarrow> pystr" where
  "spec_url_host url =
     (case py_split (u ''://'') url of
        _ # rest # _ \<Rightarrow> takeWhile (\<lambda>c. c \<noteq> 0x2F \<and> c \<noteq> 0x3F \<and> c \<noteq> 0x23) rest
      | _ \<Rightarrow> [])"

section \<open>The outside world\<close>

text \<open>
  A parsed HTML document is the list of its tags in document order, each with its name
  and its attribute dictionary. A response has a status code and a text. A feed entry
  has the fields app.py reads; \<open>None\<close> in a field says that the entry lacks the key,
  so that both \<open>e.get(k)\<close> and \<open>getattr(e, k, d)\<close> fall to their defaults, and an
  absent list field is the empty list.
\<close>

record tag =
  tag_name :: pystr
  attrs :: "pystr \<rightharpoonup> pystr"

record response =
  status_code :: int
  resp_text :: pystr

record media =
  media_url :: "pystr option"

record feed_link =
  rel :: "pystr option"
  link_type :: "pystr option"
  href :: "pystr option"

record entry =
  e_title :: "pystr option"
  e_link :: "pystr option"
  e_published_parsed :: "int list option"
  e_media_content :: "media list"
  e_media_thumbnail :: "media list"
  e_links :: "feed_link list"
  e_summary :: "pystr option"
  e_source_title :: "pystr option"

text \<open>
  The libraries that reach outside the program are inputs: \<open>urllib.parse.quote\<close>,
  \<open>feedparser.parse\<close> (the entries of the feed at a URL), \<open>SESSION.get\<close> (a response, or
  the exception of a failed or timed-out request) and \<open>BeautifulSoup(html,
  "html.parser")\<close>.
\<close>

record env =
  url_quote :: "pystr \<Rightarrow> pystr"
  feedparser_parse :: "pystr \<Rightarrow> entry list"
  session_get :: "pystr \<Rightarrow> py_error + response"
  html_parser :: "pystr \<Rightarrow> py_error + tag list"

text \<open>
  \<open>soup.find(name)\<close> and \<open>soup.find(name, attribute = value)\<close>: the first tag of that
  name, with that attribute value when one is asked for.
\<close>

definition soup_find :: "tag list \<Rightarrow> pystr \<Rightarrow> (pystr \<times> pystr) option \<Rightarrow> tag option" where
  "soup_find soup name want =
     find (\<lambda>t. tag_name t = name \<and>
                (case want of None \<Rightarrow> True | Some (k, v) \<Rightarrow> attrs t k = Some v)) soup"

text \<open>\<open>img.get("src") or img.get("data-src") or img.get("data-lazy-src")\<close>.\<close>

definition img_source :: "tag \<Rightarrow> pystr option" where
  "img_source img =
     py_or (py_or (attrs img (u ''src'')) (attrs img (u ''data-src'')))
           (attrs img (u ''data-lazy-src''))"

section \<open>Scraping an image from the article page (app.py, lines 144-167)\<close>

text \<open>
  \<open>get_real_image_try\<close> is the body of the \<open>try\<close>; the handler returns \<open>None\<close> for
  every exception. A tag is truthy whatever its content, so \<open>og\<close> is the Open Graph
  tag whenever the page has one, and the Twitter tag only when it has none.
\<close>

definition get_real_image_try :: "env \<Rightarrow> pystr \<Rightarrow> py_error + pystr option" where
  "get_real_image_try env url =
     (if url = [] then Inr None
      else
        (case session_get env url of
           Inl e \<Rightarrow> Inl e
         | Inr r \<Rightarrow>
             if status_code r \<ge> 400 then Inr None
             else
               (case html_parser env (take 140000 (resp_text r)) of
                  Inl e \<Rightarrow> Inl e
                | Inr soup \<Rightarrow>
                    let og = (case soup_find soup (u ''meta'') (Some (u ''property'', u ''og:image'')) of
                                Some t \<Rightarrow> Some t
                              | None \<Rightarrow> soup_find soup (u ''meta'')
                                          (Some (u ''name'', u ''twitter:image'')))
                    in
                      (case og of
                         Some t \<Rightarrow>
                           if truthy (attrs t (u ''content'')) then Inr (attrs t (u ''content''))
                           else (case soup_find soup (u ''img'') None of
                                   Some img \<Rightarrow> Inr (img_source img)
                                 | None \<Rightarrow> Inr None)
                       | None \<Rightarrow>
                           (case soup_find soup (u ''img'') None of
                              Some img \<Rightarrow> Inr (img_source img)
                            | None \<Rightarrow> Inr None)))))"

definition get_real_image :: "env \<Rightarrow> pystr \<Rightarrow> py_error + pystr option" where
  "get_real_image env url =
     (case get_real_image_try env url of
        Inl e \<Rightarrow> Inr None
      | Inr r \<Rightarrow> Inr r)"

text \<open>
  The order of the candidates in the words of the specification: the content of the
  Open Graph tag, then the content of the Twitter card tag, then the three attributes
  of the first \<open>img\<close>; the first one that is present and not empty is returned.
\<close>

definition spec_image_candidates :: "tag list \<Rightarrow> pystr option list" where
  "spec_image_candidates soup =
     [case soup_find soup (u ''meta'') (Some (u ''property'', u ''og:image'')) of
        None \<Rightarrow> None | Some t \<Rightarrow> attrs t (u ''content''),
      case soup_find soup (u ''meta'') (Some (u ''name'', u ''twitter:image'')) of
        None \<Rightarrow> None | Some t \<Rightarrow> attrs t (u ''content''),
      case soup_find soup (u ''img'') None of None \<Rightarrow> None | Some t \<Rightarrow> attrs t (u ''src''),
      case soup_find soup (u ''img'') None of None \<Rightarrow> None | Some t \<Rightarrow> attrs t (u ''data-src''),
      case soup_find soup (u ''img'') None of None \<Rightarrow> None | Some t \<Rightarrow> attrs t (u ''data-lazy-src'')]"

definition spec_first_image :: "tag list \<Rightarrow> pystr option" where
  "spec_first_image soup =
     (case find truthy (spec_image_candidates soup) of None \<Rightarrow> None | Some c \<Rightarrow> c)"

section \<open>Normalising a feed entry (app.py, lines 107-142, 169-176, 198-226)\<close>

text \<open>
  \<open>title.rsplit(" - ", 1)[0]\<close>: the text before the last occurrence of the separator,
  the whole text when there is none.
\<close>

definition py_rfind :: "pystr \<Rightarrow> pystr \<Rightarrow> nat option" where
  "py_rfind sep s = find (\<lambda>i. prefix sep (drop i s)) (rev [0..<length s + 1])"

definition rsplit1_head :: "pystr \<Rightarrow> pystr \<Rightarrow> pystr" where
  "rsplit1_head sep s = (case py_rfind sep s of None \<Rightarrow> s | Some i \<Rightarrow> take i s)"

definition first_media_url :: "media list \<Rightarrow> pystr option" where
  "first_media_url ms =
     (case ms of
        [] \<Rightarrow> None
      | m # _ \<Rightarrow> if truthy (media_url m) then media_url m else None)"

definition enclosure_image :: "feed_link \<Rightarrow> bool" where
  "enclosure_image l =
     (rel l = Some (u ''enclosure'') \<and> prefix (u ''image/'') (or_empty (link_type l))
      \<and> truthy (href l))"

definition pick_image_from_entry_try :: "env \<Rightarrow> entry \<Rightarrow> py_error + pystr option" where
  "pick_image_from_entry_try env entry =
     (case first_media_url (e_media_content entry) of
        Some url \<Rightarrow> Inr (Some url)
      | None \<Rightarrow>
     (case first_media_url (e_media_thumbnail entry) of
        Some url \<Rightarrow> Inr (Some url)
      | None \<Rightarrow>
     (case find enclosure_image (e_links entry) of
        Some l \<Rightarrow> Inr (href l)
      | None \<Rightarrow>
          let summary = or_empty (e_summary entry)
          in if summary \<noteq> [] \<and> str_in (u ''<img'') summary then
               (case html_parser env summary of
                  Inl e \<Rightarrow> Inl e
                | Inr soup \<Rightarrow>
                    (case soup_find soup (u ''img'') None of
                       Some img \<Rightarrow> Inr (img_source img)
                     | None \<Rightarrow> Inr None))
             else Inr None)))"

definition pick_image_from_entry :: "env \<Rightarrow> entry \<Rightarrow> pystr option" where
  "pick_image_from_entry env entry =
     (case pick_image_from_entry_try env entry of
        Inl e \<Rightarrow> None
      | Inr r \<Rightarrow> r)"

text \<open>
  \<open>datetime(*pp[:6])\<close> needs year, month and day, takes hour, minute and second when
  given, and refuses values out of range; \<open>datetime_args\<close> returns the hour and the
  minute of the date built, which is all \<open>strftime("%H:%M")\<close> prints.
\<close>

definition days_in_month :: "int \<Rightarrow> int \<Rightarrow> int" where
  "days_in_month y m =
     (if m = 2 then (if y mod 4 = 0 \<and> (y mod 100 \<noteq> 0 \<or> y mod 400 = 0) then 29 else 28)
      else if m = 4 \<or> m = 6 \<or> m = 9 \<or> m = 11 then 30
      else 31)"

definition datetime_args :: "int list \<Rightarrow> py_error + (int \<times> int)" where
  "datetime_args args =
     (case args of
        y # mo # d # rest \<Rightarrow>
          let h = (case rest of h # _ \<Rightarrow> h | _ \<Rightarrow> 0);
              mi = (case rest of _ # mi # _ \<Rightarrow> mi | _ \<Rightarrow> 0);
              s = (case rest of _ # _ # s # _ \<Rightarrow> s | _ \<Rightarrow> 0)
          in if 1 \<le> y \<and> y \<le> 9999 \<and> 1 \<le> mo \<and> mo \<le> 12 \<and> 1 \<le> d \<and> d \<le> days_in_month y mo
                \<and> 0 \<le> h \<and> h \<le> 23 \<and> 0 \<le> mi \<and> mi \<le> 59 \<and> 0 \<le> s \<and> s \<le> 59
             then Inr (h, mi)
             else Inl ValueError
      | _ \<Rightarrow> Inl TypeError)"

definition two_digits :: "int \<Rightarrow> pystr" where
  "two_digits n = [48 + nat (n div 10), 48 + nat (n mod 10)]"

definition format_time :: "entry \<Rightarrow> pystr" where
  "format_time entry =
     (case e_published_parsed entry of
        None \<Rightarrow> u ''--:--''
      | Some pp \<Rightarrow>
          if pp = [] then u ''--:--''
          else (case datetime_args (take 6 pp) of
                  Inl e \<Rightarrow> u ''--:--''
                | Inr (h, mi) \<Rightarrow> two_digits h @ u '':'' @ two_digits mi))"

record item =
  title :: pystr
  link :: pystr
  image :: "pystr option"
  source :: pystr
  date :: pystr
  district :: pystr

text \<open>
  The loop of lines 198-226 over the entries kept: an entry that fails the strict
  filter is skipped, every other entry adds one item.
\<close>

fun build_results :: "env \<Rightarrow> bool \<Rightarrow> pystr \<Rightarrow> entry list \<Rightarrow> py_error + item list" where
  "build_results env strict_istanbul district_label [] = Inr []"
| "build_results env strict_istanbul district_label (e # es) =
     (let raw_title = or_empty (e_title e);
          title_text = rsplit1_head (u '' - '') raw_title;
          raw_link = or_empty (e_link e)
      in case decode_url raw_link of
           Inl err \<Rightarrow> Inl err
         | Inr real_link \<Rightarrow>
             if strict_istanbul \<and> \<not> is_istanbul_related (Some title_text) (Some real_link)
             then build_results env strict_istanbul district_label es
             else (case build_results env strict_istanbul district_label es of
                     Inl err \<Rightarrow> Inl err
                   | Inr rest \<Rightarrow>
                       Inr (\<lparr>title = title_text,
                             link = real_link,
                             image = pick_image_from_entry env e,
                             source = (case e_source_title e of
                                         None \<Rightarrow> u ''Haber'' | Some t \<Rightarrow> t),
                             date = format_time e,
                             district = district_label\<rparr> # rest)))"

text \<open>
  The same loop read entry by entry: the title and the resolved link of an entry,
  whether the entry passes the strict filter, and the item it adds. They are used to
  state what the loop returns.
\<close>

definition entry_title :: "entry \<Rightarrow> pystr" where
  "entry_title e = rsplit1_head (u '' - '') (or_empty (e_title e))"

definition resolved_link :: "entry \<Rightarrow> pystr" where
  "resolved_link e =
     (case decode_url (or_empty (e_link e)) of
        Inl err \<Rightarrow> or_empty (e_link e)
      | Inr r \<Rightarrow> r)"

definition survives :: "bool \<Rightarrow> entry \<Rightarrow> bool" where
  "survives strict_istanbul e =
     (\<not> strict_istanbul \<or> is_istanbul_related (Some (entry_title e)) (Some (resolved_link e)))"

definition entry_item :: "env \<Rightarrow> pystr \<Rightarrow> entry \<Rightarrow> item" where
  "entry_item env district_label e =
     \<lparr>title = entry_title e,
      link = resolved_link e,
      image = pick_image_from_entry env e,
      source = (case e_source_title e of None \<Rightarrow> u ''Haber'' | Some t \<Rightarrow> t),
      date = format_time e,
      district = district_label\<rparr>"

section \<open>Sorting the feed (app.py, lines 189-193)\<close>

text \<open>
  The sort key of an entry is its \<open>published_parsed\<close> tuple, and the integer \<open>0\<close>
  when the entry has none. Python compares two tuples in lexicographic order and two
  integers by value; \<open><\<close> between a tuple and an integer raises \<open>TypeError\<close>.
\<close>

datatype sort_key = KInt int | KTime "int list"

fun key_lt :: "sort_key \<Rightarrow> sort_key \<Rightarrow> py_error + bool" where
  "key_lt (KInt a) (KInt b) = Inr (a < b)"
| "key_lt (KTime a) (KTime b) = Inr (a < b)"
| "key_lt (KInt a) (KTime b) = Inl TypeError"
| "key_lt (KTime a) (KInt b) = Inl TypeError"

definition published_key :: "entry \<Rightarrow> sort_key" where
  "published_key x =
     (case e_published_parsed x of
        Some pp \<Rightarrow> KTime pp
      | None \<Rightarrow> KInt 0)"

text \<open>The published time of an entry, the empty tuple when it has none.\<close>

definition time_of :: "entry \<Rightarrow> int list" where
  "time_of x = (case e_published_parsed x of Some t \<Rightarrow> t | None \<Rightarrow> [])"

text \<open>
  \<open>sorted(xs, key = k, reverse = True)\<close> is a stable sort that only asks \<open><\<close> of the
  keys: it reverses the list, sorts it in ascending order keeping equal keys in their
  order, and reverses the result. The ascending sort is written here as an insertion
  sort; an exception raised by a comparison leaves the sort.
\<close>

fun insort_lt :: "('a \<Rightarrow> sort_key) \<Rightarrow> 'a \<Rightarrow> 'a list \<Rightarrow> py_error + 'a list" where
  "insort_lt k x [] = Inr [x]"
| "insort_lt k x (y # ys) =
     (case key_lt (k y) (k x) of
        Inl e \<Rightarrow> Inl e
      | Inr True \<Rightarrow> (case insort_lt k x ys of Inl e \<Rightarrow> Inl e | Inr r \<Rightarrow> Inr (y # r))
      | Inr False \<Rightarrow> Inr (x # y # ys))"

fun py_sort_asc :: "('a \<Rightarrow> sort_key) \<Rightarrow> 'a list \<Rightarrow> py_error + 'a list" where
  "py_sort_asc k [] = Inr []"
| "py_sort_asc k (x # xs) =
     (case py_sort_asc k xs of
        Inl e \<Rightarrow> Inl e
      | Inr s \<Rightarrow> insort_lt k x s)"

definition py_sorted_reverse :: "('a \<Rightarrow> sort_key) \<Rightarrow> 'a list \<Rightarrow> py_error + 'a list" where
  "py_sorted_reverse k xs =
     (case py_sort_asc k (rev xs) of
        Inl e \<Rightarrow> Inl e
      | Inr s \<Rightarrow> Inr (rev s))"

text \<open>\<open>xs[:n]\<close> for a Python integer \<open>n\<close>: a negative \<open>n\<close> counts from the end.\<close>

definition py_take :: "int \<Rightarrow> 'a list \<Rightarrow> 'a list" where
  "py_take n xs =
     (if n \<ge> 0 then take (nat n) xs else take (length xs - nat (- n)) xs)"

section \<open>Enrichment of the first twelve items (app.py, lines 228-245)\<close>

definition scrape_queue_of :: "item list \<Rightarrow> (nat \<times> pystr) list" where
  "scrape_queue_of results =
     map (\<lambda>(idx, it). (idx, link it))
       (filter (\<lambda>(idx, it). \<not> truthy (image it)) (enumerate 0 (take 12 results)))"

definition upgrade_scheme :: "pystr \<Rightarrow> pystr" where
  "upgrade_scheme img =
     (if prefix (u ''http://'') img then u ''https://'' @ drop 7 img else img)"

text \<open>
  What the loop over the completed futures does with one of them: the result of
  \<open>get_real_image(link)\<close> is written to \<open>results[idx]\<close> when it is a non-empty string;
  an exception of \<open>fut.result()\<close> is passed over.
\<close>

definition write_back :: "env \<Rightarrow> item list \<Rightarrow> nat \<times> pystr \<Rightarrow> item list" where
  "write_back env results job =
     (case get_real_image env (snd job) of
        Inl e \<Rightarrow> results
      | Inr None \<Rightarrow> results
      | Inr (Some img) \<Rightarrow>
          if img \<noteq> []
          then results[fst job := (results ! fst job)\<lparr>image := Some (upgrade_scheme img)\<rparr>]
          else results)"

text \<open>
  The item a completed job leaves at its index: the item with the image found, the
  item as it was when the fetch failed or found nothing.
\<close>

definition enriched :: "env \<Rightarrow> item \<Rightarrow> item" where
  "enriched env it =
     (case get_real_image env (link it) of
        Inr (Some img) \<Rightarrow> if img \<noteq> [] then it\<lparr>image := Some (upgrade_scheme img)\<rparr> else it
      | _ \<Rightarrow> it)"

text \<open>
  The futures complete in an order the thread pool decides. \<open>run_scrape_queue\<close> takes
  the jobs in the order given; \<open>fetch_google_news\<close> below hands it the queue in
  submission order.
\<close>

definition run_scrape_queue :: "env \<Rightarrow> item list \<Rightarrow> (nat \<times> pystr) list \<Rightarrow> item list" where
  "run_scrape_queue env results completed = foldl (write_back env) results completed"

section \<open>The orchestrator (app.py, lines 179-248)\<close>

function digits :: "nat \<Rightarrow> pystr" where
  "digits n = (if n < 10 then [48 + n] else digits (n div 10) @ [48 + n mod 10])"
  by pat_completeness auto
termination
  by (relation "measure id") auto

declare digits.simps [simp del]

definition str_int :: "int \<Rightarrow> pystr" where
  "str_int i = (if i < 0 then 45 # digits (nat (- i)) else digits (nat i))"

definition str_bool :: "bool \<Rightarrow> pystr" where
  "str_bool b = (if b then u ''True'' else u ''False'')"

definition cache_key :: "pystr \<Rightarrow> pystr \<Rightarrow> int \<Rightarrow> bool \<Rightarrow> pystr" where
  "cache_key district_label query limit strict_istanbul =
     district_label @ u '':'' @ query @ u '':'' @ str_int limit @ u '':'' @ str_bool strict_istanbul"

definition search_url :: "env \<Rightarrow> pystr \<Rightarrow> pystr" where
  "search_url env query =
     u ''https://news.google.com/rss/search?q='' @ url_quote env query @ u ''&hl=tr&gl=TR&ceid=TR:tr''"

text \<open>
  A call returns a list of items or leaves with an exception; it leaves a cache behind,
  and it has sent requests: one for the feed, one for each article page scraped.
\<close>

datatype io_event = FeedFetch pystr | PageFetch pystr

record outcome =
  returned :: "py_error + item list"
  cache_after :: "item list cache"
  requests :: "io_event list"

text \<open>
  Lines 185-248, the work after a cache miss. \<open>now_set\<close> is the clock read by
  \<open>cache_set\<close>. \<open>get_real_image\<close> sends no request for an empty link.
\<close>

definition fetch_fresh ::
  "env \<Rightarrow> real \<Rightarrow> pystr \<Rightarrow> pystr \<Rightarrow> int \<Rightarrow> bool \<Rightarrow> item list cache \<Rightarrow> outcome" where
  "fetch_fresh env now_set query district_label limit strict_istanbul CACHE =
     (let url = search_url env query;
          feed = feedparser_parse env url
      in (case py_sorted_reverse published_key feed of
            Inl err \<Rightarrow> \<lparr>returned = Inl err, cache_after = CACHE, requests = [FeedFetch url]\<rparr>
          | Inr sorted_entries \<Rightarrow>
              (let entries = py_take limit sorted_entries
               in (case build_results env strict_istanbul district_label entries of
                     Inl err \<Rightarrow>
                       \<lparr>returned = Inl err, cache_after = CACHE, requests = [FeedFetch url]\<rparr>
                   | Inr results \<Rightarrow>
                       (let scrape_queue = scrape_queue_of results;
                            enriched = run_scrape_queue env results scrape_queue
                        in \<lparr>returned = Inr enriched,
                            cache_after =
                              cache_set now_set
                                (cache_key district_label query limit strict_istanbul)
                                enriched CACHE_TTL CACHE,
                            requests =
                              FeedFetch url #
                              map PageFetch
                                (filter (\<lambda>l. l \<noteq> []) (map snd scrape_queue))\<rparr>)))))"

text \<open>
  Lines 179-183 and the rest. \<open>if cached:\<close> is true for a non-empty list only:
  \<open>None\<close> and the empty list both lead to a fresh fetch.
\<close>

definition fetch_google_news ::
  "env \<Rightarrow> real \<Rightarrow> real \<Rightarrow> pystr \<Rightarrow> pystr \<Rightarrow> int \<Rightarrow> bool \<Rightarrow> item list cache \<Rightarrow> outcome" where
  "fetch_google_news env now_get now_set query district_label limit strict_istanbul CACHE =
     (case cache_get now_get (cache_key district_label query limit strict_istanbul) CACHE of
        (Some (it # its), CACHE1) \<Rightarrow>
          \<lparr>returned = Inr (it # its), cache_after = CACHE1, requests = []\<rparr>
      | (_, CACHE1) \<Rightarrow>
          fetch_fresh env now_set query district_label limit strict_istanbul CACHE1)"




section \<open>Example feeds\<close>

text \<open>
  Two dated entries, one entry with neither date nor link, and a world in which
  \<open>feedparser.parse\<close> returns a given list of entries and every page request fails.
\<close>

definition entry_pendik :: entry where
  "entry_pendik =
     \<lparr>e_title = Some (u ''Pendik sahilinde kaza - Ajans''),
      e_link = Some (u ''https://a.example/n1''),
      e_published_parsed = Some [2024, 5, 1, 10, 30, 0, 2, 122, 0],
      e_media_content = [], e_media_thumbnail = [], e_links = [],
      e_summary = None, e_source_title = None\<rparr>"

definition entry_ankara :: entry where
  "entry_ankara =
     \<lparr>e_title = Some (u ''Ankara haberi - Ajans''),
      e_link = Some (u ''https://a.example/n2''),
      e_published_parsed = Some [2024, 5, 2, 8, 5, 0, 3, 123, 0],
      e_media_content = [], e_media_thumbnail = [], e_links = [],
      e_summary = None, e_source_title = Some (u ''Ajans'')\<rparr>"

definition entry_undated :: entry where
  "entry_undated =
     \<lparr>e_title = Some (u ''Fatih haber''),
      e_link = None,
      e_published_parsed = None,
      e_media_content = [], e_media_thumbnail = [], e_links = [],
      e_summary = None, e_source_title = None\<rparr>"

definition offline_env :: "entry list \<Rightarrow> env" where
  "offline_env feed =
     \<lparr>url_quote = (\<lambda>q. q),
      feedparser_parse = (\<lambda>url. feed),
      session_get = (\<lambda>url. Inl RequestError),
      html_parser = (\<lambda>html. Inl ParseError)\<rparr>"

text \<open>
  A world in which one article page answers, with an Open Graph image of insecure
  scheme, and every other request fails; and two items without image.
\<close>

definition page_env :: env where
  "page_env =
     \<lparr>url_quote = (\<lambda>q. q),
      feedparser_parse = (\<lambda>url. []),
      session_get = (\<lambda>url. if url = u ''https://a.example/n1''
                            then Inr \<lparr>status_code = 200,
                                      resp_text = u ''<meta property=og:image content=http://img.example/a.jpg>''\<rparr>
                            else Inl RequestError),
      html_parser = (\<lambda>html. Inr
         [\<lparr>tag_name = u ''meta'',
           attrs = [u ''property'' \<mapsto> u ''og:image'',
                    u ''content'' \<mapsto> u ''http://img.example/a.jpg'']\<rparr>])\<rparr>"

definition item_n1 :: item where
  "item_n1 =
     \<lparr>title = u ''Pendik sahilinde kaza'', link = u ''https://a.example/n1'', image = None,
      source = u ''Haber'', date = u ''10:30'', district = u ''Pendik''\<rparr>"

definition item_n2 :: item where
  "item_n2 =
     \<lparr>title = u ''Ankara haberi'', link = u ''https://a.example/n2'', image = None,
      source = u ''Ajans'', date = u ''08:05'', district = u ''Pendik''\<rparr>"

section \<open>Properties of the cache\<close>

lemma cache_get_after_set:
  "now' \<le> now + ttl \<Longrightarrow>
   cache_get now' key (cache_set now key data ttl CACHE)
     = (Some data, cache_set now key data ttl CACHE)"
  by (simp add: cache_get_def cache_set_def)

lemma cache_get_expired:
  "CACHE key = Some (expiry, data) \<Longrightarrow> expiry < now \<Longrightarrow>
   cache_get now key CACHE = (None, CACHE(key := None))"
  by (simp add: cache_get_def)

text \<open>
  C9. Round trip and lazy eviction. A payload stored at time \<open>now\<close> with the default TTL
  and read at any time \<open>now'\<close> not later than \<open>now + 180\<close> is returned unchanged, and the
  read leaves the store as it was. A read of an entry whose expiry time has passed returns
  nothing, removes that key, and leaves every other key as it was.
\<close>

theorem cache_round_trip_and_eviction:
  "(now' \<le> now + CACHE_TTL \<longrightarrow>
      fst (cache_get now' key (cache_set now key data CACHE_TTL CACHE)) = Some data \<and>
      snd (cache_get now' key (cache_set now key data CACHE_TTL CACHE))
        = cache_set now key data CACHE_TTL CACHE) \<and>
   (CACHE key = Some (expiry, data) \<and> expiry < now \<longrightarrow>
      fst (cache_get now key CACHE) = None \<and>
      snd (cache_get now key CACHE) key = None \<and>
      (\<forall>k. k \<noteq> key \<longrightarrow> snd (cache_get now key CACHE) k = CACHE k))"
  by (simp add: cache_get_after_set cache_get_expired)

theorem cache_round_trip_and_eviction_witness:
  "fst (cache_get 100 (u ''k'') (cache_set 100 (u ''k'') [1::nat] CACHE_TTL Map.empty)) = Some [1] \<and>
   fst (cache_get 281 (u ''k'') (cache_set 100 (u ''k'') [1::nat] CACHE_TTL Map.empty)) = None \<and>
   snd (cache_get 281 (u ''k'') (cache_set 100 (u ''k'') [1::nat] CACHE_TTL Map.empty)) (u ''k'') = None"
  using cache_round_trip_and_eviction
          [where now' = 100 and now = 100 and key = "u ''k''" and data = "[1::nat]"
             and CACHE = Map.empty]
        cache_round_trip_and_eviction
          [where now = 281 and key = "u ''k''" and data = "[1::nat]" and expiry = 280
             and CACHE = "cache_set 100 (u ''k'') [1::nat] CACHE_TTL Map.empty"]
  by (simp add: CACHE_TTL_def cache_set_def)

section \<open>Properties of the relevance filter\<close>

lemmas lower_eval = py_lower_def to_lower_def lower_runs_def

lemma str_in_sublist: "str_in needle hay = sublist needle hay"
  by (induction hay) (auto simp: sublist_Cons_right)

lemma length_IST_DISTRICTS: "length IST_DISTRICTS = 39"
  by (simp add: IST_DISTRICTS_def)

lemma is_istanbul_related_sublist:
  "is_istanbul_related title_a link_a =
     (sublist (u ''istanbul'') (py_lower (or_empty title_a)) \<or>
      sublist ([0x69, 0x307] @ u ''stanbul'') (py_lower (or_empty title_a)) \<or>
      sublist (u ''istanbul'') (py_lower (or_empty link_a)) \<or>
      (\<exists>d \<in> set IST_DISTRICTS. sublist d (py_lower (or_empty title_a))))"
  by (auto simp: is_istanbul_related_def Let_def str_in_sublist list_ex_iff)

lemma is_istanbul_related_dotted_example:
  "is_istanbul_related (Some ([0x130] @ u ''STANBUL'da olay'')) (Some [])"
  by (simp add: is_istanbul_related_def Let_def lower_eval or_empty_def u_def)

lemma is_istanbul_related_ankara_example:
  "\<not> is_istanbul_related (Some (u ''Ankara haberi'')) (Some [])"
  by (simp add: is_istanbul_related_def Let_def lower_eval or_empty_def u_def
        IST_DISTRICTS_def)

text \<open>
  Python's lower-casing is not the Turkish one: the capital \<open>I\<close> of an upper-case
  district name becomes the dotted \<open>i\<close>, not the dotless one of the list, so a title
  in capitals such as that of Kadikoy (upper-case I, O with diaeresis) is not matched although its lower-case spelling is.
\<close>

lemma is_istanbul_related_capitals_example:
  "\<not> is_istanbul_related (Some (u ''KADIK'' @ [0xD6] @ u ''Y'')) (Some []) \<and>
   is_istanbul_related (Some (u ''kad'' @ [0x131] @ u ''k'' @ [0xF6] @ u ''y'')) (Some [])"
  by (simp add: is_istanbul_related_def Let_def lower_eval or_empty_def u_def
        IST_DISTRICTS_def)

subsection \<open>Case of letters\<close>

lemma to_lower_capital: "0x41 \<le> c \<Longrightarrow> c \<le> 0x5A \<Longrightarrow> to_lower c = c + 32"
  by (simp add: to_lower_def lower_runs_def nat_add_distrib)

lemma to_lower_small: "0x61 \<le> c \<Longrightarrow> c \<le> 0x7A \<Longrightarrow> to_lower c = c"
  by (simp add: to_lower_def lower_runs_def)

lemma to_lower_fold: "to_lower (fold_cp c) = to_lower c"
proof -
  have "to_lower 0xC7 = 0xE7" "to_lower 0xE7 = 0xE7" "to_lower 0xD6 = 0xF6" "to_lower 0xF6 = 0xF6"
    "to_lower 0xDC = 0xFC" "to_lower 0xFC = 0xFC" "to_lower 0x11E = 0x11F" "to_lower 0x11F = 0x11F"
    "to_lower 0x15E = 0x15F" "to_lower 0x15F = 0x15F"
    by (simp_all add: to_lower_def lower_runs_def)
  then show ?thesis
    by (simp add: fold_cp_def to_lower_capital to_lower_small)
qed

lemma ignorable_fold: "is_case_ignorable (fold_cp c) = is_case_ignorable c"
proof -
  have cap: "\<not> is_case_ignorable c" if "0x41 \<le> c" "c \<le> 0x5A" for c
    using that by (simp add: is_case_ignorable_def case_ignorable_ranges_def)
  have small: "\<not> is_case_ignorable c" if "0x61 \<le> c" "c \<le> 0x7A" for c
    using that by (simp add: is_case_ignorable_def case_ignorable_ranges_def)
  have tr: "\<not> is_case_ignorable 0xC7" "\<not> is_case_ignorable 0xE7" "\<not> is_case_ignorable 0xD6"
    "\<not> is_case_ignorable 0xF6" "\<not> is_case_ignorable 0xDC" "\<not> is_case_ignorable 0xFC"
    "\<not> is_case_ignorable 0x11E" "\<not> is_case_ignorable 0x11F" "\<not> is_case_ignorable 0x15E"
    "\<not> is_case_ignorable 0x15F"
    by (simp_all add: is_case_ignorable_def case_ignorable_ranges_def)
  show ?thesis
    using tr by (simp add: fold_cp_def cap small)
qed

lemma cased_fold: "is_cased (fold_cp c) = is_cased c"
proof -
  have cap: "is_cased c" if "0x41 \<le> c" "c \<le> 0x5A" for c
    using that by (simp add: is_cased_def cased_ranges_def)
  have small: "is_cased c" if "0x61 \<le> c" "c \<le> 0x7A" for c
    using that by (simp add: is_cased_def cased_ranges_def)
  have tr: "is_cased 0xC7" "is_cased 0xE7" "is_cased 0xD6"
    "is_cased 0xF6" "is_cased 0xDC" "is_cased 0xFC"
    "is_cased 0x11E" "is_cased 0x11F" "is_cased 0x15E"
    "is_cased 0x15F"
    by (simp_all add: is_cased_def cased_ranges_def)
  show ?thesis
    using tr by (simp add: fold_cp_def cap small)
qed

lemma fold_cp_sigma: "fold_cp c = 0x3A3 \<longleftrightarrow> c = 0x3A3"
  by (simp add: fold_cp_def)

lemma fold_cp_dotted: "fold_cp c = 0x130 \<longleftrightarrow> c = 0x130"
  by (simp add: fold_cp_def)

lemma dropWhile_ignorable_fold:
  "dropWhile is_case_ignorable (map fold_cp xs) = map fold_cp (dropWhile is_case_ignorable xs)"
  by (induction xs) (simp_all add: ignorable_fold)

lemma sigma_choice_fold:
  "(case map fold_cp bs of
      [] \<Rightarrow> x
    | b # _ \<Rightarrow>
        if is_cased b then
          (case map fold_cp as of [] \<Rightarrow> y | a # _ \<Rightarrow> if is_cased a then x else y)
        else x)
   = (case bs of
        [] \<Rightarrow> x
      | b # _ \<Rightarrow>
          if is_cased b then
            (case as of [] \<Rightarrow> y | a # _ \<Rightarrow> if is_cased a then x else y)
          else x)"
  by (cases bs; cases as) (simp_all add: cased_fold)

lemma handle_capital_sigma_fold:
  "handle_capital_sigma (map fold_cp before) (map fold_cp after) = handle_capital_sigma before after"
  unfolding handle_capital_sigma_def dropWhile_ignorable_fold
  by (rule sigma_choice_fold)

lemma lower_from_fold:
  "lower_from (map fold_cp before) (map fold_cp s) = lower_from before s"
proof (induction s arbitrary: before)
  case Nil
  then show ?case by simp
next
  case (Cons c s)
  have rest: "lower_from (map fold_cp (c # before)) (map fold_cp s) = lower_from (c # before) s"
    by (rule Cons.IH)
  have sig: "handle_capital_sigma (map fold_cp before) (map fold_cp s)
               = handle_capital_sigma before s"
    by (rule handle_capital_sigma_fold)
  show ?case
    using rest sig by (simp add: fold_cp_sigma fold_cp_dotted to_lower_fold)
qed

lemma py_lower_fold: "py_lower (map fold_cp s) = py_lower s"
  using lower_from_fold [of "[]" s] by (simp add: py_lower_def)

lemma py_lower_same_fold: "map fold_cp s = map fold_cp t \<Longrightarrow> py_lower s = py_lower t"
  by (metis py_lower_fold)

lemma is_istanbul_related_fold:
  assumes "map fold_cp t = map fold_cp t'" and "map fold_cp l = map fold_cp l'"
  shows "is_istanbul_related (Some t) (Some l) = is_istanbul_related (Some t') (Some l')"
  using py_lower_same_fold [OF assms(1)] py_lower_same_fold [OF assms(2)]
  by (simp add: is_istanbul_related_def or_empty_def)

subsection \<open>The claim\<close>

text \<open>
  C7, as the claim states it, speaks of 38 listed district names and calls the test
  case-insensitive. The list of the source has 39 entries, and a district name in
  capitals with the Turkish dotted capital I is refused although its spelling in small
  letters is accepted: lower-casing gives \<open>i\<close> followed by U+0307 for that capital,
  and line 36 provides for this form in \<open>istanbul\<close> only.
\<close>

theorem is_istanbul_related_counterexample:
  "length IST_DISTRICTS \<noteq> 38 \<and>
   is_istanbul_related (Some (u ''pendik'')) (Some []) \<and>
   \<not> is_istanbul_related (Some (u ''PEND'' @ [0x130] @ u ''K'')) (Some [])"
  by (simp add: is_istanbul_related_def Let_def lower_eval or_empty_def u_def
        IST_DISTRICTS_def)

text \<open>
  C7 (amended). \<open>is_istanbul_related\<close> is true exactly when \<open>istanbul\<close>, or its form
  with the combining dot that lower-casing the dotted capital I produces, is a contiguous
  part of the lower-cased title, or \<open>istanbul\<close> is a contiguous part of the lower-cased
  link, or one of the 39 listed district names is a contiguous part of the lower-cased
  title. An absent title or link counts as the empty string. The result does not change
  with the case of the letters A to Z and of the Turkish letters with cedilla, breve and
  diaeresis, in title or link. The two examples of the specification evaluate to true and
  to false.
\<close>

theorem is_istanbul_related_spec:
  "(is_istanbul_related title_a link_a \<longleftrightarrow>
      sublist (u ''istanbul'') (py_lower (or_empty title_a)) \<or>
      sublist ([0x69, 0x307] @ u ''stanbul'') (py_lower (or_empty title_a)) \<or>
      sublist (u ''istanbul'') (py_lower (or_empty link_a)) \<or>
      (\<exists>d \<in> set IST_DISTRICTS. sublist d (py_lower (or_empty title_a)))) \<and>
   length IST_DISTRICTS = 39 \<and>
   is_istanbul_related None link_a = is_istanbul_related (Some []) link_a \<and>
   is_istanbul_related title_a None = is_istanbul_related title_a (Some []) \<and>
   (map fold_cp t = map fold_cp t' \<and> map fold_cp l = map fold_cp l' \<longrightarrow>
      is_istanbul_related (Some t) (Some l) = is_istanbul_related (Some t') (Some l')) \<and>
   is_istanbul_related (Some ([0x130] @ u ''STANBUL'da olay'')) (Some []) \<and>
   \<not> is_istanbul_related (Some (u ''Ankara haberi'')) (Some [])"
proof -
  have none_title: "is_istanbul_related None link_a = is_istanbul_related (Some []) link_a"
    by (simp add: is_istanbul_related_def or_empty_def)
  have none_link: "is_istanbul_related title_a None = is_istanbul_related title_a (Some [])"
    by (simp add: is_istanbul_related_def or_empty_def)
  have fold: "map fold_cp t = map fold_cp t' \<and> map fold_cp l = map fold_cp l' \<longrightarrow>
      is_istanbul_related (Some t) (Some l) = is_istanbul_related (Some t') (Some l')"
    using is_istanbul_related_fold by blast
  show ?thesis
    using is_istanbul_related_sublist [of title_a link_a] length_IST_DISTRICTS none_title
      none_link fold is_istanbul_related_dotted_example
      is_istanbul_related_ankara_example
    by (intro conjI) assumption+
qed

theorem is_istanbul_related_spec_witness:
  "is_istanbul_related (Some (u ''ISTANBUL Haber'')) (Some (u ''HTTPS://A.EXAMPLE/N1''))
     = is_istanbul_related (Some (u ''istanbul haber'')) (Some (u ''https://a.example/n1'')) \<and>
   is_istanbul_related (Some (u ''Pendik sahili'')) None \<and>
   sublist (u ''pendik'') (py_lower (u ''Pendik sahili''))"
proof -
  have same: "map fold_cp (u ''ISTANBUL Haber'') = map fold_cp (u ''istanbul haber'') \<and>
              map fold_cp (u ''HTTPS://A.EXAMPLE/N1'') = map fold_cp (u ''https://a.example/n1'')"
    by (simp add: fold_cp_def u_def)
  have sub: "sublist (u ''pendik'') (py_lower (u ''Pendik sahili''))"
    unfolding str_in_sublist [symmetric]
    by (simp add: lower_eval u_def)
  have mem: "u ''pendik'' \<in> set IST_DISTRICTS"
    by (simp add: IST_DISTRICTS_def)
  note T1 = is_istanbul_related_spec
      [where t = "u ''ISTANBUL Haber''" and t' = "u ''istanbul haber''"
         and l = "u ''HTTPS://A.EXAMPLE/N1''" and l' = "u ''https://a.example/n1''"]
  note T2 = is_istanbul_related_spec [of "Some (u ''Pendik sahili'')" None]
  have first: "is_istanbul_related (Some (u ''ISTANBUL Haber'')) (Some (u ''HTTPS://A.EXAMPLE/N1''))
     = is_istanbul_related (Some (u ''istanbul haber'')) (Some (u ''https://a.example/n1''))"
    using T1 same by blast
  have second: "is_istanbul_related (Some (u ''Pendik sahili'')) None"
    using T2 [THEN conjunct1] sub mem by (auto simp: or_empty_def)
  show ?thesis
    using first second sub by simp
qed

section \<open>Properties of the link resolver\<close>

lemma decode_url_returns: "\<exists>r. decode_url s = Inr r"
  by (simp add: decode_url_def split: sum.split)

lemma decode_url_on_error: "decode_url_try s = Inl e \<Longrightarrow> decode_url s = Inr s"
  by (simp add: decode_url_def)

lemma decode_url_unchanged:
  "\<not> str_in (u ''news.google.com'') s \<or> \<not> str_in (u ''articles/'') s \<Longrightarrow> decode_url s = Inr s"
  by (auto simp: decode_url_def decode_url_try_def)

lemma match_url_at_nonempty: "match_url_at s = Some m \<Longrightarrow> m \<noteq> []"
  by (auto simp: match_url_at_def split: if_splits)

lemma re_search_url_nonempty: "re_search_url s = Some m \<Longrightarrow> m \<noteq> []"
  by (induction s) (auto split: option.splits dest: match_url_at_nonempty)

lemma decode_url_cases:
  "decode_url s = Inr s \<or>
   (\<exists>part token decoded m.
      py_index (py_split (u ''articles/'') s) 1 = Inr part \<and>
      py_index (py_split (u ''?'') part) 0 = Inr token \<and>
      b64decode (token @ u ''==='') = Inr decoded \<and>
      re_search_url (utf8_decode_ignore decoded) = Some m \<and>
      decode_url s = Inr m)"
  by (auto simp: decode_url_def decode_url_try_def split: sum.splits option.splits)

lemma decode_url_Nil: "decode_url [] = Inr []"
  by (rule decode_url_unchanged) (simp add: u_def)

lemma decode_url_empty_iff: "decode_url s = Inr r \<Longrightarrow> r = [] \<longleftrightarrow> s = []"
proof
  assume "decode_url s = Inr r" and "r = []"
  then show "s = []"
    using decode_url_cases [of s] by (auto dest: re_search_url_nonempty)
next
  assume "decode_url s = Inr r" and "s = []"
  then show "r = []"
    by (simp add: decode_url_Nil)
qed

text \<open>
  C5, as the claim states it, lets every URL whose host is not the aggregator's pass
  unchanged. The test of line 97 looks for the two texts anywhere in the string: a URL of
  another host that carries them in its query is decoded.
\<close>

theorem decode_url_other_host_counterexample:
  "spec_url_host (u ''https://example.com/?u=news.google.com/articles/aHR0cHM6Ly9hLmI'')
     \<noteq> u ''news.google.com'' \<and>
   decode_url (u ''https://example.com/?u=news.google.com/articles/aHR0cHM6Ly9hLmI'')
     \<noteq> Inr (u ''https://example.com/?u=news.google.com/articles/aHR0cHM6Ly9hLmI'')"
  by (simp add: spec_url_host_def decode_url_def decode_url_try_def u_def py_split_def
        py_index_def b64decode_def table_a2b_base64_def emit_def match_url_at_def
        url_char_def is_space_cp_def is_cont_def)

text \<open>
  C5 (amended). \<open>decode_url\<close> returns its argument unchanged whenever the text
  \<open>news.google.com\<close> does not occur in it or the text \<open>articles/\<close> does not occur in it.
\<close>

theorem decode_url_identity:
  assumes "\<not> sublist (u ''news.google.com'') x \<or> \<not> sublist (u ''articles/'') x"
  shows "decode_url x = Inr x"
  using assms by (simp add: decode_url_unchanged str_in_sublist)

theorem decode_url_identity_witness:
  "decode_url (u ''https://www.example.org/articles/42'') = Inr (u ''https://www.example.org/articles/42'') \<and>
   \<not> sublist (u ''news.google.com'') (u ''https://www.example.org/articles/42'')"
proof -
  have no: "\<not> sublist (u ''news.google.com'') (u ''https://www.example.org/articles/42'')"
    unfolding str_in_sublist [symmetric] by (simp add: u_def)
  then show ?thesis
    using decode_url_identity [of "u ''https://www.example.org/articles/42''"] by simp
qed

text \<open>
  C6. \<open>decode_url\<close> returns a value for every string: no exception leaves it. Whenever
  the body of the \<open>try\<close> raises (a token that is not base64, a string that is not
  ASCII, an index out of range), and whenever the decoded text holds no \<open>http(s)://\<close>
  URL, the result is the argument itself. In every other case the result is the URL
  found in the decoded token.
\<close>

theorem decode_url_never_raises:
  "(\<exists>r. decode_url s = Inr r) \<and>
   (\<forall>e. decode_url_try s = Inl e \<longrightarrow> decode_url s = Inr s) \<and>
   (\<forall>part token e.
      py_index (py_split (u ''articles/'') s) 1 = Inr part \<and>
      py_index (py_split (u ''?'') part) 0 = Inr token \<and>
      b64decode (token @ u ''==='') = Inl e \<longrightarrow> decode_url s = Inr s) \<and>
   (\<forall>part token decoded.
      py_index (py_split (u ''articles/'') s) 1 = Inr part \<and>
      py_index (py_split (u ''?'') part) 0 = Inr token \<and>
      b64decode (token @ u ''==='') = Inr decoded \<and>
      re_search_url (utf8_decode_ignore decoded) = None \<longrightarrow> decode_url s = Inr s) \<and>
   (decode_url s = Inr s \<or>
    (\<exists>part token decoded m.
      py_index (py_split (u ''articles/'') s) 1 = Inr part \<and>
      py_index (py_split (u ''?'') part) 0 = Inr token \<and>
      b64decode (token @ u ''==='') = Inr decoded \<and>
      re_search_url (utf8_decode_ignore decoded) = Some m \<and>
      decode_url s = Inr m))"
proof -
  have b64: "\<forall>part token e.
      py_index (py_split (u ''articles/'') s) 1 = Inr part \<and>
      py_index (py_split (u ''?'') part) 0 = Inr token \<and>
      b64decode (token @ u ''==='') = Inl e \<longrightarrow> decode_url s = Inr s"
    by (auto simp: decode_url_def decode_url_try_def)
  have nomatch: "\<forall>part token decoded.
      py_index (py_split (u ''articles/'') s) 1 = Inr part \<and>
      py_index (py_split (u ''?'') part) 0 = Inr token \<and>
      b64decode (token @ u ''==='') = Inr decoded \<and>
      re_search_url (utf8_decode_ignore decoded) = None \<longrightarrow> decode_url s = Inr s"
    by (auto simp: decode_url_def decode_url_try_def)
  show ?thesis
    using decode_url_returns [of s] decode_url_on_error [of s] b64 nomatch
      decode_url_cases [of s]
    by blast
qed

text \<open>
  Three inputs of the kinds the claim names: a token that is not base64 (one character),
  a token whose bytes are not UTF-8 (the byte 0xFF), and a token with no \<open>?\<close> after it.
\<close>

theorem decode_url_never_raises_witness:
  "decode_url_try (u ''https://news.google.com/articles/A?x'') = Inl BinasciiError \<and>
   decode_url (u ''https://news.google.com/articles/A?x'')
     = Inr (u ''https://news.google.com/articles/A?x'') \<and>
   b64decode (u ''/w'' @ u ''==='') = Inr [0xFF] \<and>
   decode_url (u ''https://news.google.com/articles//w?x'')
     = Inr (u ''https://news.google.com/articles//w?x'') \<and>
   decode_url (u ''https://news.google.com/articles/aHR0cHM6Ly9hLmI'') = Inr (u ''https://a.b'')"
proof -
  have try_A: "decode_url_try (u ''https://news.google.com/articles/A?x'') = Inl BinasciiError"
    by (simp add: decode_url_try_def u_def py_split_def py_index_def b64decode_def
          table_a2b_base64_def emit_def)
  have parts: "py_index (py_split (u ''articles/'') (u ''https://news.google.com/articles//w?x'')) 1
                 = Inr (u ''/w?x'') \<and>
               py_index (py_split (u ''?'') (u ''/w?x'')) 0 = Inr (u ''/w'')"
    by (simp add: u_def py_split_def py_index_def)
  have bytes: "b64decode (u ''/w'' @ u ''==='') = Inr [0xFF]"
    by (simp add: u_def b64decode_def table_a2b_base64_def emit_def)
  have nomatch: "re_search_url (utf8_decode_ignore [0xFF]) = None"
    by simp
  have plain: "decode_url (u ''https://news.google.com/articles/aHR0cHM6Ly9hLmI'')
                 = Inr (u ''https://a.b'')"
    by (simp add: decode_url_def decode_url_try_def u_def py_split_def
          py_index_def b64decode_def table_a2b_base64_def emit_def match_url_at_def
          url_char_def is_space_cp_def is_cont_def)
  show ?thesis
    using try_A parts bytes nomatch plain
      decode_url_never_raises [of "u ''https://news.google.com/articles/A?x''"]
      decode_url_never_raises [of "u ''https://news.google.com/articles//w?x''"]
    by (auto simp del: re_search_url.simps utf8_decode_ignore.simps)
qed

section \<open>Properties of the page scraper\<close>

lemma get_real_image_returns: "\<exists>r. get_real_image env url = Inr r"
  by (simp add: get_real_image_def split: sum.split)

lemma get_real_image_request_failed:
  "session_get env url = Inl e \<Longrightarrow> get_real_image env url = Inr None"
  by (simp add: get_real_image_def get_real_image_try_def)

lemma get_real_image_status:
  "session_get env url = Inr r \<Longrightarrow> status_code r \<ge> 400 \<Longrightarrow> get_real_image env url = Inr None"
  by (simp add: get_real_image_def get_real_image_try_def)

lemma get_real_image_og:
  assumes "url \<noteq> []" and "session_get env url = Inr r" and "status_code r < 400"
    and "html_parser env (take 140000 (resp_text r)) = Inr soup"
    and "soup_find soup (u ''meta'') (Some (u ''property'', u ''og:image'')) = Some t"
    and "truthy (attrs t (u ''content''))"
  shows "get_real_image env url = Inr (attrs t (u ''content''))"
  using assms by (simp add: get_real_image_def get_real_image_try_def)

lemma get_real_image_twitter:
  assumes "url \<noteq> []" and "session_get env url = Inr r" and "status_code r < 400"
    and "html_parser env (take 140000 (resp_text r)) = Inr soup"
    and "soup_find soup (u ''meta'') (Some (u ''property'', u ''og:image'')) = None"
    and "soup_find soup (u ''meta'') (Some (u ''name'', u ''twitter:image'')) = Some t"
    and "truthy (attrs t (u ''content''))"
  shows "get_real_image env url = Inr (attrs t (u ''content''))"
  using assms by (simp add: get_real_image_def get_real_image_try_def)

text \<open>
  C8. The page below has an Open Graph image tag without content and a Twitter card
  tag with one, and no \<open>img\<close>. The order of the specification gives the content of the
  Twitter tag. \<open>get_real_image\<close> returns \<open>None\<close>: line 157 chooses between the two
  tags before looking at their content, so the Twitter tag is never read when an Open
  Graph tag is present.
\<close>

theorem get_real_image_skips_twitter:
  "get_real_image
     \<lparr>url_quote = (\<lambda>q. q),
      feedparser_parse = (\<lambda>_. []),
      session_get = (\<lambda>_. Inr \<lparr>status_code = 200,
         resp_text = u ''<meta property=og:image><meta name=twitter:image content=https://cdn.example/x.jpg>''\<rparr>),
      html_parser = (\<lambda>_. Inr
         [\<lparr>tag_name = u ''meta'', attrs = [u ''property'' \<mapsto> u ''og:image'']\<rparr>,
          \<lparr>tag_name = u ''meta'',
           attrs = [u ''name'' \<mapsto> u ''twitter:image'',
                    u ''content'' \<mapsto> u ''https://cdn.example/x.jpg'']\<rparr>])\<rparr>
     (u ''https://a.example/n1'') = Inr None \<and>
   spec_first_image
     [\<lparr>tag_name = u ''meta'', attrs = [u ''property'' \<mapsto> u ''og:image'']\<rparr>,
      \<lparr>tag_name = u ''meta'',
       attrs = [u ''name'' \<mapsto> u ''twitter:image'',
                u ''content'' \<mapsto> u ''https://cdn.example/x.jpg'']\<rparr>]
     = Some (u ''https://cdn.example/x.jpg'')"
  by (simp add: get_real_image_def get_real_image_try_def soup_find_def
        spec_first_image_def spec_image_candidates_def u_def)

section \<open>Properties of the orchestrator\<close>

lemmas eval_defs =
  fetch_google_news_def fetch_fresh_def cache_get_def cache_set_def cache_key_def
  search_url_def py_sorted_reverse_def published_key_def py_take_def scrape_queue_of_def
  run_scrape_queue_def write_back_def get_real_image_def get_real_image_try_def
  offline_env_def entry_pendik_def entry_ankara_def entry_undated_def decode_url_def
  decode_url_try_def rsplit1_head_def py_rfind_def pick_image_from_entry_def
  pick_image_from_entry_try_def first_media_url_def format_time_def datetime_args_def
  days_in_month_def two_digits_def str_int_def digits.simps str_bool_def u_def is_istanbul_related_def
  lower_eval or_empty_def Let_def enumerate_eq_zip

subsection \<open>Cache hits\<close>

lemma fetch_google_news_hit:
  assumes "CACHE (cache_key district_label query limit strict_istanbul) = Some (expiry, payload)"
    and "now_get \<le> expiry" and "payload \<noteq> []"
  shows "fetch_google_news env now_get now_set query district_label limit strict_istanbul CACHE
           = \<lparr>returned = Inr payload, cache_after = CACHE, requests = []\<rparr>"
proof -
  obtain it its where "payload = it # its"
    using assms(3) by (cases payload) auto
  then show ?thesis
    using assms(1,2) by (simp add: fetch_google_news_def cache_get_def)
qed

text \<open>
  C1, as the claim states it, promises the cached payload whenever an unexpired one is
  held. An empty list is such a payload, and it is what a call stores when no entry
  survives; \<open>if cached:\<close> is false for it, so the feed is fetched again. Below, the
  cache holds the empty list until time 100, the call is made at time 50, and the call
  sends requests and returns one item.
\<close>

theorem cached_empty_list_counterexample:
  "cache_get 50 (cache_key (u ''Pendik'') (u ''q'') 30 False)
     [cache_key (u ''Pendik'') (u ''q'') 30 False \<mapsto> (100, [])]
     = (Some [], [cache_key (u ''Pendik'') (u ''q'') 30 False \<mapsto> (100, [])]) \<and>
   requests (fetch_google_news (offline_env [entry_pendik]) 50 50 (u ''q'') (u ''Pendik'') 30 False
     [cache_key (u ''Pendik'') (u ''q'') 30 False \<mapsto> (100, [])])
     = [FeedFetch (u ''https://news.google.com/rss/search?q=q&hl=tr&gl=TR&ceid=TR:tr''),
        PageFetch (u ''https://a.example/n1'')] \<and>
   returned (fetch_google_news (offline_env [entry_pendik]) 50 50 (u ''q'') (u ''Pendik'') 30 False
     [cache_key (u ''Pendik'') (u ''q'') 30 False \<mapsto> (100, [])])
     \<noteq> Inr []"
  by (simp add: eval_defs)

text \<open>
  C1 (amended). For every key: when the cache holds, for that key, a non-empty payload
  whose expiry time has not passed, \<open>fetch_google_news\<close> returns that payload, sends no
  request at all (no feed fetch, no page fetch), and leaves the cache as it was.
\<close>

theorem fetch_google_news_cache_hit:
  assumes "CACHE (cache_key district_label query limit strict_istanbul) = Some (expiry, payload)"
    and "now_get \<le> expiry" and "payload \<noteq> []"
  shows "returned (fetch_google_news env now_get now_set query district_label limit
                     strict_istanbul CACHE) = Inr payload \<and>
         requests (fetch_google_news env now_get now_set query district_label limit
                     strict_istanbul CACHE) = [] \<and>
         cache_after (fetch_google_news env now_get now_set query district_label limit
                     strict_istanbul CACHE) = CACHE"
  using assms by (simp add: fetch_google_news_hit)

theorem fetch_google_news_cache_hit_witness:
  "returned (fetch_google_news (offline_env [entry_pendik]) 50 50 (u ''q'') (u ''Pendik'') 30 False
     [cache_key (u ''Pendik'') (u ''q'') 30 False \<mapsto>
        (100, [\<lparr>title = u ''Eski haber'', link = u ''https://a.example/n0'', image = None,
                source = u ''Haber'', date = u ''--:--'', district = u ''Pendik''\<rparr>])])
     = Inr [\<lparr>title = u ''Eski haber'', link = u ''https://a.example/n0'', image = None,
              source = u ''Haber'', date = u ''--:--'', district = u ''Pendik''\<rparr>] \<and>
   requests (fetch_google_news (offline_env [entry_pendik]) 50 50 (u ''q'') (u ''Pendik'') 30 False
     [cache_key (u ''Pendik'') (u ''q'') 30 False \<mapsto>
        (100, [\<lparr>title = u ''Eski haber'', link = u ''https://a.example/n0'', image = None,
                source = u ''Haber'', date = u ''--:--'', district = u ''Pendik''\<rparr>])])
     = []"
  using fetch_google_news_cache_hit
    [where CACHE = "[cache_key (u ''Pendik'') (u ''q'') 30 False \<mapsto>
        (100, [\<lparr>title = u ''Eski haber'', link = u ''https://a.example/n0'', image = None,
                source = u ''Haber'', date = u ''--:--'', district = u ''Pendik''\<rparr>])]"
       and district_label = "u ''Pendik''" and query = "u ''q''" and limit = 30
       and strict_istanbul = False and expiry = 100 and now_get = 50 and now_set = 50
       and env = "offline_env [entry_pendik]"
       and payload = "[\<lparr>title = u ''Eski haber'', link = u ''https://a.example/n0'',
                image = None, source = u ''Haber'', date = u ''--:--'',
                district = u ''Pendik''\<rparr>]"]
  by simp

subsection \<open>Sorting the feed\<close>

text \<open>Two keys can be compared when both are tuples or both are integers.\<close>

lemma key_lt_error: "key_lt a b = Inl e \<Longrightarrow> e = TypeError"
  by (cases a; cases b) auto

lemma key_lt_time: "key_lt a b = Inr r \<Longrightarrow> (\<exists>s t. a = KTime s \<and> b = KTime t) \<or> (\<exists>i j. a = KInt i \<and> b = KInt j)"
  by (cases a; cases b) auto

lemma insort_lt_error: "insort_lt k x ys = Inl e \<Longrightarrow> e = TypeError"
  by (induction ys) (auto split: sum.splits bool.splits dest: key_lt_error)

lemma py_sort_asc_error: "py_sort_asc k xs = Inl e \<Longrightarrow> e = TypeError"
  by (induction xs arbitrary: e) (auto split: sum.splits dest: insort_lt_error)

lemma py_sorted_reverse_error: "py_sorted_reverse k xs = Inl e \<Longrightarrow> e = TypeError"
  by (auto simp: py_sorted_reverse_def split: sum.splits dest: py_sort_asc_error)

lemma insort_lt_set: "insort_lt k x ys = Inr r \<Longrightarrow> set r = insert x (set ys)"
proof (induction ys arbitrary: r)
  case Nil
  then show ?case by auto
next
  case (Cons y ys)
  show ?case
  proof (cases "key_lt (k y) (k x)")
    case (Inl e)
    with Cons.prems show ?thesis by simp
  next
    case (Inr b)
    show ?thesis
    proof (cases b)
      case True
      with Inr Cons.prems obtain r' where "insort_lt k x ys = Inr r'" and "r = y # r'"
        by (auto split: sum.splits)
      with Cons.IH show ?thesis by auto
    next
      case False
      with Inr Cons.prems show ?thesis by auto
    qed
  qed
qed

lemma insort_lt_head:
  "insort_lt k x (y # ys) = Inr r \<Longrightarrow>
     (\<exists>s t. k y = KTime s \<and> k x = KTime t) \<or> (\<exists>i j. k y = KInt i \<and> k x = KInt j)"
  by (auto split: sum.splits dest: key_lt_time)

lemma py_sort_asc_set: "py_sort_asc k xs = Inr s \<Longrightarrow> set s = set xs"
  by (induction xs arbitrary: s) (auto split: sum.splits dest: insort_lt_set)



lemma py_sort_asc_one_kind:
  "py_sort_asc k xs = Inr s \<Longrightarrow>
     (\<forall>x \<in> set xs. \<exists>t. k x = KTime t) \<or> (\<forall>x \<in> set xs. \<exists>i. k x = KInt i)"
proof (induction xs arbitrary: s)
  case Nil
  then show ?case by simp
next
  case (Cons x xs)
  from Cons.prems obtain s' where s': "py_sort_asc k xs = Inr s'"
    and ins: "insort_lt k x s' = Inr s"
    by (cases "py_sort_asc k xs") simp_all
  have kinds: "(\<forall>x \<in> set xs. \<exists>t. k x = KTime t) \<or> (\<forall>x \<in> set xs. \<exists>i. k x = KInt i)"
    using Cons.IH [OF s'] .
  have sets: "set s' = set xs"
    using py_sort_asc_set [OF s'] .
  show ?case
  proof (cases s')
    case Nil
    with sets have "xs = []" by simp
    then show ?thesis by (cases "k x") simp_all
  next
    case (Cons y ys)
    with sets have y: "y \<in> set xs" by auto
    have "(\<exists>a b. k y = KTime a \<and> k x = KTime b) \<or> (\<exists>i j. k y = KInt i \<and> k x = KInt j)"
      using insort_lt_head [of k x y ys s] ins Cons by simp
    then show ?thesis
    proof
      assume "\<exists>a b. k y = KTime a \<and> k x = KTime b"
      then obtain a b where ky: "k y = KTime a" and kx: "k x = KTime b" by blast
      from kinds have "\<forall>x \<in> set xs. \<exists>t. k x = KTime t"
      proof
        assume "\<forall>x \<in> set xs. \<exists>i. k x = KInt i"
        with y ky show ?thesis by force
      qed
      with kx show ?thesis by simp
    next
      assume "\<exists>i j. k y = KInt i \<and> k x = KInt j"
      then obtain i j where ky: "k y = KInt i" and kx: "k x = KInt j" by blast
      from kinds have "\<forall>x \<in> set xs. \<exists>i. k x = KInt i"
      proof
        assume "\<forall>x \<in> set xs. \<exists>t. k x = KTime t"
        with y ky show ?thesis by force
      qed
      with kx show ?thesis by simp
    qed
  qed
qed

text \<open>
  A feed in which one entry has a published time and another has none cannot be
  sorted: the call of \<open>sorted\<close> raises \<open>TypeError\<close>.
\<close>

lemma py_sorted_reverse_mixed:
  assumes "x \<in> set xs" and "e_published_parsed x = None"
    and "y \<in> set xs" and "e_published_parsed y = Some t"
  shows "py_sorted_reverse published_key xs = Inl TypeError"
proof (cases "py_sort_asc published_key (rev xs)")
  case (Inl e)
  then show ?thesis
    using py_sort_asc_error [OF Inl] by (simp add: py_sorted_reverse_def)
next
  case (Inr s)
  from py_sort_asc_one_kind [OF Inr] assms show ?thesis
    by (auto simp: published_key_def)
qed

text \<open>
  When every comparison succeeds, the ascending sort is the stable insertion sort of
  the library, \<open>sort_key\<close>, on the values inside the keys.
\<close>

lemma insort_lt_time:
  assumes "\<forall>y \<in> set (x # ys). k y = KTime (f y)"
  shows "insort_lt k x ys = Inr (insort_key f x ys)"
  using assms by (induction ys) (auto simp: not_le dest: leD)

lemma py_sort_asc_time:
  assumes "\<forall>y \<in> set xs. k y = KTime (f y)"
  shows "py_sort_asc k xs = Inr (sort_key f xs)"
  using assms
proof (induction xs)
  case Nil
  then show ?case by simp
next
  case (Cons x xs)
  then have "py_sort_asc k xs = Inr (sort_key f xs)" by simp
  moreover have "insort_lt k x (sort_key f xs) = Inr (insort_key f x (sort_key f xs))"
    using Cons.prems by (intro insort_lt_time) auto
  ultimately show ?case by simp
qed

lemma insort_lt_int:
  assumes "\<forall>y \<in> set (x # ys). k y = KInt (f y)"
  shows "insort_lt k x ys = Inr (insort_key f x ys)"
  using assms by (induction ys) (auto simp: not_le dest: leD)

lemma py_sort_asc_int:
  assumes "\<forall>y \<in> set xs. k y = KInt (f y)"
  shows "py_sort_asc k xs = Inr (sort_key f xs)"
  using assms
proof (induction xs)
  case Nil
  then show ?case by simp
next
  case (Cons x xs)
  then have "py_sort_asc k xs = Inr (sort_key f xs)" by simp
  moreover have "insort_lt k x (sort_key f xs) = Inr (insort_key f x (sort_key f xs))"
    using Cons.prems by (intro insort_lt_int) auto
  ultimately show ?case by simp
qed

lemma insort_key_constant: "insort_key (\<lambda>x. c) a xs = a # xs"
  by (cases xs) simp_all

lemma sort_key_constant: "sort_key (\<lambda>x. c) xs = xs"
  by (induction xs) (simp_all add: insort_key_constant)

text \<open>
  A feed whose entries all have a published time is sorted: the result holds the same
  entries, latest first, and entries of equal time keep their order in the feed.
\<close>

lemma py_sorted_reverse_dated:
  assumes "\<forall>x \<in> set xs. e_published_parsed x \<noteq> None"
  shows "\<exists>ys. py_sorted_reverse published_key xs = Inr ys \<and>
           mset ys = mset xs \<and>
           sorted_wrt (\<lambda>a b. time_of a \<ge> time_of b) ys \<and>
           (\<forall>t. filter (\<lambda>x. time_of x = t) ys = filter (\<lambda>x. time_of x = t) xs)"
proof -
  have keys: "\<forall>y \<in> set (rev xs). published_key y = KTime (time_of y)"
    using assms by (auto simp: published_key_def time_of_def)
  let ?s = "sort_key time_of (rev xs)"
  have res: "py_sorted_reverse published_key xs = Inr (rev ?s)"
    using py_sort_asc_time [OF keys] by (simp add: py_sorted_reverse_def)
  have "sorted (map time_of ?s)" by simp
  then have "sorted_wrt (\<lambda>a b. time_of a \<le> time_of b) ?s"
    by (simp add: sorted_map)
  then have desc: "sorted_wrt (\<lambda>a b. time_of a \<ge> time_of b) (rev ?s)"
    by (simp add: sorted_wrt_rev)
  have stable: "filter (\<lambda>x. time_of x = t) (rev ?s) = filter (\<lambda>x. time_of x = t) xs" for t
  proof -
    have "filter (\<lambda>x. time_of x = t) ?s = filter (\<lambda>x. time_of x = t) (rev xs)"
      by (rule sort_key_stable)
    then show ?thesis by (simp add: rev_filter [symmetric])
  qed
  show ?thesis using res desc stable by auto
qed

text \<open>A feed without any published time keeps its order.\<close>

lemma py_sorted_reverse_undated:
  assumes "\<forall>x \<in> set xs. e_published_parsed x = None"
  shows "py_sorted_reverse published_key xs = Inr xs"
proof -
  have "\<forall>y \<in> set (rev xs). published_key y = KInt ((\<lambda>x. 0) y)"
    using assms by (simp add: published_key_def)
  from py_sort_asc_int [OF this] show ?thesis
    by (simp add: py_sorted_reverse_def sort_key_constant)
qed

lemma py_sorted_reverse_set: "py_sorted_reverse k xs = Inr ys \<Longrightarrow> set ys = set xs"
  by (auto simp: py_sorted_reverse_def split: sum.splits dest: py_sort_asc_set)

text \<open>
  C2. The feed below has one entry with a published time and one without. The claim
  has the undated entry sorted last. The call of \<open>sorted\<close> raises \<open>TypeError\<close>
  instead, which nothing in \<open>fetch_google_news\<close> catches: the default key \<open>0\<close> is an
  integer, and Python 3 does not compare an integer with a time tuple.
\<close>

theorem fetch_google_news_mixed_dates_raise:
  "returned (fetch_google_news (offline_env [entry_pendik, entry_undated]) 0 0
              (u ''q'') (u ''Pendik'') 30 False Map.empty) = Inl TypeError"
  by (simp add: fetch_google_news_def fetch_fresh_def cache_get_def offline_env_def
        py_sorted_reverse_def published_key_def entry_pendik_def entry_undated_def)


subsection \<open>Enrichment\<close>

lemma write_back_length: "length (write_back env rs job) = length rs"
  by (simp add: write_back_def split: sum.split option.split)

lemma run_scrape_queue_length: "length (run_scrape_queue env rs jobs) = length rs"
  unfolding run_scrape_queue_def
  by (induction jobs arbitrary: rs) (simp_all add: write_back_length)

lemma write_back_nth_other: "i \<noteq> fst job \<Longrightarrow> write_back env rs job ! i = rs ! i"
  by (simp add: write_back_def split: sum.split option.split)

lemma write_back_nth_same:
  "fst job < length rs \<Longrightarrow>
   write_back env rs job ! fst job
     = (case get_real_image env (snd job) of
          Inr (Some img) \<Rightarrow>
            if img \<noteq> [] then (rs ! fst job)\<lparr>image := Some (upgrade_scheme img)\<rparr>
            else rs ! fst job
        | _ \<Rightarrow> rs ! fst job)"
  by (simp add: write_back_def split: sum.split option.split)

lemma run_scrape_queue_nth:
  assumes "distinct (map fst jobs)" and "i < length rs"
  shows "run_scrape_queue env rs jobs ! i
           = (case map_of jobs i of
                None \<Rightarrow> rs ! i
              | Some l \<Rightarrow>
                  (case get_real_image env l of
                     Inr (Some img) \<Rightarrow>
                       if img \<noteq> [] then (rs ! i)\<lparr>image := Some (upgrade_scheme img)\<rparr>
                       else rs ! i
                   | _ \<Rightarrow> rs ! i))"
  using assms unfolding run_scrape_queue_def
proof (induction jobs arbitrary: rs)
  case Nil
  then show ?case by simp
next
  case (Cons job jobs)
  have d: "distinct (map fst jobs)" and fresh: "fst job \<notin> fst ` set jobs"
    using Cons.prems(1) by auto
  have len: "i < length (write_back env rs job)"
    using Cons.prems(2) by (simp add: write_back_length)
  have step: "foldl (write_back env) (write_back env rs job) jobs ! i
                = (case map_of jobs i of
                     None \<Rightarrow> write_back env rs job ! i
                   | Some l \<Rightarrow>
                       (case get_real_image env l of
                          Inr (Some img) \<Rightarrow>
                            if img \<noteq> []
                            then (write_back env rs job ! i)\<lparr>image := Some (upgrade_scheme img)\<rparr>
                            else write_back env rs job ! i
                        | _ \<Rightarrow> write_back env rs job ! i))"
    using Cons.IH [OF d len] .
  show ?case
  proof (cases "i = fst job")
    case True
    then have none: "map_of jobs i = None"
      using fresh by (simp add: map_of_eq_None_iff)
    have "map_of (job # jobs) i = Some (snd job)"
      using True by (cases job) simp
    then show ?thesis
      using step none True Cons.prems(2) write_back_nth_same [of job rs env]
      by (simp split: sum.split option.split)
  next
    case False
    then have same: "map_of (job # jobs) i = map_of jobs i"
      by (cases job) simp
    have eq: "write_back env rs job ! i = rs ! i"
      using False by (simp add: write_back_nth_other)
    show ?thesis
      using step [unfolded eq] same by simp
  qed
qed

lemma scrape_queue_distinct: "distinct (map fst (scrape_queue_of rs))"
proof -
  have "map fst (scrape_queue_of rs)
          = map fst (filter (\<lambda>(idx, it). \<not> truthy (image it)) (enumerate 0 (take 12 rs)))"
    by (simp add: scrape_queue_of_def comp_def case_prod_unfold)
  moreover have "distinct (map fst (enumerate 0 (take 12 rs)))"
    by simp
  ultimately show ?thesis
    by (simp add: distinct_map_filter)
qed

lemma scrape_queue_member:
  "(i, l) \<in> set (scrape_queue_of rs) \<longleftrightarrow>
     i < length rs \<and> i < 12 \<and> \<not> truthy (image (rs ! i)) \<and> l = link (rs ! i)"
  by (auto simp: scrape_queue_of_def in_set_enumerate_eq)

lemma scrape_queue_map_of:
  "map_of (scrape_queue_of rs) i
     = (if i < length rs \<and> i < 12 \<and> \<not> truthy (image (rs ! i)) then Some (link (rs ! i))
        else None)"
proof (cases "i < length rs \<and> i < 12 \<and> \<not> truthy (image (rs ! i))")
  case True
  then have "(i, link (rs ! i)) \<in> set (scrape_queue_of rs)"
    by (simp add: scrape_queue_member)
  then show ?thesis
    using True scrape_queue_distinct [of rs] by simp
next
  case False
  then have "i \<notin> fst ` set (scrape_queue_of rs)"
    by (auto simp: scrape_queue_member)
  then have "map_of (scrape_queue_of rs) i = None"
    by (simp add: map_of_eq_None_iff)
  then show ?thesis
    using False by auto
qed

lemma enrichment_nth:
  assumes "i < length rs"
  shows "run_scrape_queue env rs (scrape_queue_of rs) ! i
           = (if i < 12 \<and> \<not> truthy (image (rs ! i)) then enriched env (rs ! i) else rs ! i)"
  using assms
  by (simp add: run_scrape_queue_nth [OF scrape_queue_distinct] scrape_queue_map_of
        enriched_def)

lemma enriched_fields:
  "title (enriched env it) = title it \<and> link (enriched env it) = link it \<and>
   source (enriched env it) = source it \<and> date (enriched env it) = date it \<and>
   district (enriched env it) = district it"
  by (simp add: enriched_def split: sum.split option.split)

lemma enriched_image:
  "image (enriched env it)
     = (case get_real_image env (link it) of
          Inr (Some img) \<Rightarrow> if img \<noteq> [] then Some (upgrade_scheme img) else image it
        | _ \<Rightarrow> image it)"
  by (simp add: enriched_def split: sum.split option.split)

lemma run_scrape_queue_any_order:
  assumes "mset completed = mset (scrape_queue_of rs)"
  shows "run_scrape_queue env rs completed = run_scrape_queue env rs (scrape_queue_of rs)"
proof (rule nth_equalityI)
  show "length (run_scrape_queue env rs completed)
          = length (run_scrape_queue env rs (scrape_queue_of rs))"
    by (simp add: run_scrape_queue_length)
next
  fix i assume "i < length (run_scrape_queue env rs completed)"
  then have i: "i < length rs" by (simp add: run_scrape_queue_length)
  have "mset (map fst completed) = mset (map fst (scrape_queue_of rs))"
    using assms by (metis mset_map)
  then have d: "distinct (map fst completed)"
    using scrape_queue_distinct [of rs] by (metis mset_eq_imp_distinct_iff)
  have "set completed = set (scrape_queue_of rs)"
    using assms by (metis set_mset_mset)
  then have "map_of completed = map_of (scrape_queue_of rs)"
    using d scrape_queue_distinct [of rs] by (simp add: map_of_inject_set)
  then show "run_scrape_queue env rs completed ! i
               = run_scrape_queue env rs (scrape_queue_of rs) ! i"
    using i d by (simp add: run_scrape_queue_nth scrape_queue_distinct)
qed

lemma enriched_all_fail:
  assumes "\<forall>url. \<exists>e. session_get env url = Inl e"
  shows "enriched env it = it"
proof -
  obtain e where "session_get env (link it) = Inl e"
    using assms by blast
  then have "get_real_image env (link it) = Inr None"
    by (simp add: get_real_image_def get_real_image_try_def)
  then show ?thesis by (simp add: enriched_def)
qed

lemma upgrade_scheme_http: "upgrade_scheme (u ''http://'' @ rest) = u ''https://'' @ rest"
  by (simp add: upgrade_scheme_def u_def)

lemma upgrade_scheme_other: "\<not> prefix (u ''http://'') img \<Longrightarrow> upgrade_scheme img = img"
  by (simp add: upgrade_scheme_def)

text \<open>
  C4. The enrichment of a list of items never fails and returns a list of the same
  length, in which every item keeps its title, link, source, date and district. An item
  among the first twelve whose image is \<open>None\<close> or empty gets the image its page
  fetch returned, with \<open>http://\<close> rewritten to \<open>https://\<close>, when that fetch returned a
  non-empty string; when the fetch failed or found nothing its image stays as it was.
  Every other item is unchanged. The order in which the fetches complete does not
  matter. When every request fails the list is returned as it was. (That at most eight
  fetches run at a time is a property of the thread pool, which this model leaves out.)
\<close>

theorem enrichment_batch:
  "(let E = run_scrape_queue env rs (scrape_queue_of rs) in
      length E = length rs \<and>
      (\<forall>i < length rs.
         title (E ! i) = title (rs ! i) \<and> link (E ! i) = link (rs ! i) \<and>
         source (E ! i) = source (rs ! i) \<and> date (E ! i) = date (rs ! i) \<and>
         district (E ! i) = district (rs ! i) \<and>
         (i < 12 \<and> \<not> truthy (image (rs ! i)) \<longrightarrow>
            image (E ! i)
              = (case get_real_image env (link (rs ! i)) of
                   Inr (Some img) \<Rightarrow>
                     if img \<noteq> [] then Some (upgrade_scheme img) else image (rs ! i)
                 | _ \<Rightarrow> image (rs ! i))) \<and>
         (\<not> (i < 12 \<and> \<not> truthy (image (rs ! i))) \<longrightarrow> E ! i = rs ! i)) \<and>
      (\<forall>completed. mset completed = mset (scrape_queue_of rs) \<longrightarrow>
         run_scrape_queue env rs completed = E) \<and>
      ((\<forall>url. \<exists>e. session_get env url = Inl e) \<longrightarrow> E = rs)) \<and>
   (\<forall>url. \<exists>r. get_real_image env url = Inr r) \<and>
   (\<forall>rest. upgrade_scheme (u ''http://'' @ rest) = u ''https://'' @ rest) \<and>
   (\<forall>img. \<not> prefix (u ''http://'') img \<longrightarrow> upgrade_scheme img = img)"
proof -
  let ?E = "run_scrape_queue env rs (scrape_queue_of rs)"
  have len: "length ?E = length rs"
    by (rule run_scrape_queue_length)
  have each: "\<forall>i < length rs.
         title (?E ! i) = title (rs ! i) \<and> link (?E ! i) = link (rs ! i) \<and>
         source (?E ! i) = source (rs ! i) \<and> date (?E ! i) = date (rs ! i) \<and>
         district (?E ! i) = district (rs ! i) \<and>
         (i < 12 \<and> \<not> truthy (image (rs ! i)) \<longrightarrow>
            image (?E ! i)
              = (case get_real_image env (link (rs ! i)) of
                   Inr (Some img) \<Rightarrow>
                     if img \<noteq> [] then Some (upgrade_scheme img) else image (rs ! i)
                 | _ \<Rightarrow> image (rs ! i))) \<and>
         (\<not> (i < 12 \<and> \<not> truthy (image (rs ! i))) \<longrightarrow> ?E ! i = rs ! i)"
    by (simp add: enrichment_nth enriched_fields enriched_image)
  have order: "\<forall>completed. mset completed = mset (scrape_queue_of rs) \<longrightarrow>
         run_scrape_queue env rs completed = ?E"
    by (intro allI impI run_scrape_queue_any_order)
  have fail: "(\<forall>url. \<exists>e. session_get env url = Inl e) \<longrightarrow> ?E = rs"
  proof
    assume all: "\<forall>url. \<exists>e. session_get env url = Inl e"
    show "?E = rs"
    proof (rule nth_equalityI)
      show "length ?E = length rs" by (rule len)
    next
      fix i assume "i < length ?E"
      then show "?E ! i = rs ! i"
        by (simp add: len enrichment_nth enriched_all_fail [OF all])
    qed
  qed
  have total: "\<forall>url. \<exists>r. get_real_image env url = Inr r"
    by (simp add: get_real_image_returns)
  have up1: "\<forall>rest. upgrade_scheme (u ''http://'' @ rest) = u ''https://'' @ rest"
    by (simp add: upgrade_scheme_http)
  have up2: "\<forall>img. \<not> prefix (u ''http://'') img \<longrightarrow> upgrade_scheme img = img"
    by (simp add: upgrade_scheme_other)
  show ?thesis
    unfolding Let_def
    using len each order fail total up1 up2
    by (intro conjI) assumption+
qed

theorem enrichment_batch_witness:
  "run_scrape_queue page_env [item_n1, item_n2] (scrape_queue_of [item_n1, item_n2])
     = [item_n1\<lparr>image := Some (u ''https://img.example/a.jpg'')\<rparr>, item_n2] \<and>
   run_scrape_queue page_env [item_n1, item_n2] (rev (scrape_queue_of [item_n1, item_n2]))
     = [item_n1\<lparr>image := Some (u ''https://img.example/a.jpg'')\<rparr>, item_n2] \<and>
   run_scrape_queue (offline_env []) [item_n1, item_n2] (scrape_queue_of [item_n1, item_n2])
     = [item_n1, item_n2]"
proof -
  let ?rs = "[item_n1, item_n2]"
  let ?E = "run_scrape_queue page_env ?rs (scrape_queue_of ?rs)"
  note T = enrichment_batch [of page_env ?rs, unfolded Let_def]
  note T_len = T [THEN conjunct1, THEN conjunct1]
  note T_each = T [THEN conjunct1, THEN conjunct2, THEN conjunct1]
  note T_order = T [THEN conjunct1, THEN conjunct2, THEN conjunct2, THEN conjunct1]
  note T_fail = enrichment_batch [of "offline_env []" ?rs, unfolded Let_def,
      THEN conjunct1, THEN conjunct2, THEN conjunct2, THEN conjunct2]
  have g1: "get_real_image page_env (link item_n1) = Inr (Some (u ''http://img.example/a.jpg''))"
    by (simp add: get_real_image_def get_real_image_try_def page_env_def item_n1_def
          soup_find_def u_def)
  have g2: "get_real_image page_env (link item_n2) = Inr None"
    by (simp add: get_real_image_def get_real_image_try_def page_env_def item_n2_def u_def)
  have up: "upgrade_scheme (u ''http://img.example/a.jpg'') = u ''https://img.example/a.jpg''"
    by (simp add: upgrade_scheme_def u_def)
  have ne: "u ''http://img.example/a.jpg'' \<noteq> []"
    by (simp add: u_def)
  have no_img: "\<not> truthy (image item_n1)" "\<not> truthy (image item_n2)"
    by (simp_all add: item_n1_def item_n2_def)
  have len: "length ?E = Suc (Suc 0)"
    using T_len by simp
  then obtain a b where ab: "?E = [a, b]"
    by (auto simp: length_Suc_conv)
  have f0: "title a = title item_n1 \<and> link a = link item_n1 \<and>
        source a = source item_n1 \<and> date a = date item_n1 \<and>
        district a = district item_n1 \<and>
        image a = Some (u ''https://img.example/a.jpg'')"
    using T_each [THEN spec, of 0] g1 up ne no_img ab by simp
  have f1: "title b = title item_n2 \<and> link b = link item_n2 \<and>
        source b = source item_n2 \<and> date b = date item_n2 \<and>
        district b = district item_n2 \<and> image b = image item_n2"
    using T_each [THEN spec, of 1] g2 no_img ab by simp
  have a: "a = item_n1\<lparr>image := Some (u ''https://img.example/a.jpg'')\<rparr>"
    using f0 by (cases a) (simp add: item_n1_def)
  have b: "b = item_n2"
    using f1 by (cases b) (simp add: item_n2_def)
  have E: "?E = [item_n1\<lparr>image := Some (u ''https://img.example/a.jpg'')\<rparr>, item_n2]"
    using ab a b by simp
  have rev_order: "run_scrape_queue page_env ?rs (rev (scrape_queue_of ?rs)) = ?E"
    using T_order [THEN spec, of "rev (scrape_queue_of ?rs)"] by simp
  have offline: "run_scrape_queue (offline_env []) ?rs (scrape_queue_of ?rs) = ?rs"
    using T_fail by (simp add: offline_env_def)
  show ?thesis
    using E rev_order offline by simp
qed

subsection \<open>The items of a fresh fetch\<close>

lemma resolved_link_decode: "decode_url (or_empty (e_link e)) = Inr (resolved_link e)"
  using decode_url_returns [of "or_empty (e_link e)"] by (auto simp: resolved_link_def)

lemma build_results_step:
  "build_results env strict_istanbul district_label (e # es)
     = (if survives strict_istanbul e
        then (case build_results env strict_istanbul district_label es of
                Inl err \<Rightarrow> Inl err
              | Inr rest \<Rightarrow> Inr (entry_item env district_label e # rest))
        else build_results env strict_istanbul district_label es)"
  using resolved_link_decode [of e]
  by (cases strict_istanbul)
     (simp_all add: Let_def survives_def entry_item_def entry_title_def split: sum.split)

lemma build_results_map:
  "build_results env strict_istanbul district_label es
     = Inr (map (entry_item env district_label) (filter (survives strict_istanbul) es))"
proof (induction es)
  case Nil
  then show ?case by simp
next
  case (Cons e es)
  show ?case
    unfolding build_results_step by (simp add: Cons.IH)
qed

lemma resolved_link_empty_iff:
  "resolved_link e = [] \<longleftrightarrow> e_link e = None \<or> e_link e = Some []"
  using decode_url_empty_iff [OF resolved_link_decode, of e]
  by (auto simp: or_empty_def split: option.splits)

lemma resolved_link_fallback:
  "decode_url_try (or_empty (e_link e)) = Inl err \<Longrightarrow> resolved_link e = or_empty (e_link e)"
  by (simp add: resolved_link_def decode_url_def)

lemma run_scrape_queue_links:
  "map link (run_scrape_queue env rs (scrape_queue_of rs)) = map link rs"
  by (rule nth_equalityI)
     (simp_all add: run_scrape_queue_length enrichment_nth enriched_fields)

lemma run_scrape_queue_titles:
  "map title (run_scrape_queue env rs (scrape_queue_of rs)) = map title rs"
  by (rule nth_equalityI)
     (simp_all add: run_scrape_queue_length enrichment_nth enriched_fields)

lemma fetch_google_news_miss:
  assumes "requests (fetch_google_news env now_get now_set query district_label limit
                       strict_istanbul CACHE) \<noteq> []"
  shows "fetch_google_news env now_get now_set query district_label limit strict_istanbul CACHE
           = fetch_fresh env now_set query district_label limit strict_istanbul
               (snd (cache_get now_get (cache_key district_label query limit strict_istanbul) CACHE))"
proof (cases "cache_get now_get (cache_key district_label query limit strict_istanbul) CACHE")
  case (Pair cached CACHE1)
  show ?thesis
  proof (cases cached)
    case None
    with Pair show ?thesis by (simp add: fetch_google_news_def)
  next
    case (Some payload)
    show ?thesis
    proof (cases payload)
      case Nil
      with Pair Some show ?thesis by (simp add: fetch_google_news_def)
    next
      case (Cons it its)
      with Pair Some assms show ?thesis by (simp add: fetch_google_news_def)
    qed
  qed
qed

lemma fetch_fresh_returned:
  assumes "returned (fetch_fresh env now_set query district_label limit strict_istanbul CACHE)
             = Inr rs"
  shows "\<exists>sorted_entries.
           py_sorted_reverse published_key (feedparser_parse env (search_url env query))
             = Inr sorted_entries \<and>
           rs = run_scrape_queue env
                  (map (entry_item env district_label)
                     (filter (survives strict_istanbul) (py_take limit sorted_entries)))
                  (scrape_queue_of
                     (map (entry_item env district_label)
                        (filter (survives strict_istanbul) (py_take limit sorted_entries))))"
  using assms
  by (auto simp: fetch_fresh_def Let_def build_results_map split: sum.splits)


lemma py_take_subset: "set (py_take n xs) \<subseteq> set xs"
  by (auto simp: py_take_def dest: in_set_takeD)

lemma fetch_google_news_fresh_items:
  assumes "requests (fetch_google_news env now_get now_set query district_label limit
                       strict_istanbul CACHE) \<noteq> []"
    and "returned (fetch_google_news env now_get now_set query district_label limit
                       strict_istanbul CACHE) = Inr rs"
  shows "\<exists>sorted_entries.
           py_sorted_reverse published_key (feedparser_parse env (search_url env query))
             = Inr sorted_entries \<and>
           length rs = length (filter (survives strict_istanbul) (py_take limit sorted_entries)) \<and>
           map title rs
             = map entry_title (filter (survives strict_istanbul) (py_take limit sorted_entries)) \<and>
           map link rs
             = map resolved_link (filter (survives strict_istanbul) (py_take limit sorted_entries))"
proof -
  let ?C = "snd (cache_get now_get (cache_key district_label query limit strict_istanbul) CACHE)"
  have "returned (fetch_fresh env now_set query district_label limit strict_istanbul ?C) = Inr rs"
    using assms fetch_google_news_miss [OF assms(1)] by simp
  from fetch_fresh_returned [OF this] obtain sorted_entries where
    srt: "py_sorted_reverse published_key (feedparser_parse env (search_url env query))
            = Inr sorted_entries"
    and rs: "rs = run_scrape_queue env
                  (map (entry_item env district_label)
                     (filter (survives strict_istanbul) (py_take limit sorted_entries)))
                  (scrape_queue_of
                     (map (entry_item env district_label)
                        (filter (survives strict_istanbul) (py_take limit sorted_entries))))"
    by blast
  let ?es = "filter (survives strict_istanbul) (py_take limit sorted_entries)"
  have len: "length rs = length ?es"
    unfolding rs by (simp add: run_scrape_queue_length)
  have titles: "map title rs = map entry_title ?es"
    unfolding rs by (simp add: run_scrape_queue_titles entry_item_def comp_def)
  have links: "map link rs = map resolved_link ?es"
    unfolding rs by (simp add: run_scrape_queue_links entry_item_def comp_def)
  show ?thesis
    using srt len titles links by blast
qed

lemma entry_item_link:
  "decode_url (or_empty (e_link e)) = Inr (link (entry_item env district_label e)) \<and>
   (link (entry_item env district_label e) = [] \<longleftrightarrow> e_link e = None \<or> e_link e = Some []) \<and>
   (\<forall>err. decode_url_try (or_empty (e_link e)) = Inl err \<longrightarrow>
      link (entry_item env district_label e) = or_empty (e_link e))"
  by (simp add: entry_item_def resolved_link_decode resolved_link_empty_iff
        resolved_link_fallback)

lemma fetch_google_news_fresh_links:
  assumes "requests (fetch_google_news env now_get now_set query district_label limit
                       strict_istanbul CACHE) \<noteq> []"
    and "returned (fetch_google_news env now_get now_set query district_label limit
                       strict_istanbul CACHE) = Inr rs"
  shows "\<exists>sorted_entries.
           py_sorted_reverse published_key (feedparser_parse env (search_url env query))
             = Inr sorted_entries \<and>
           length rs = length (filter (survives strict_istanbul) (py_take limit sorted_entries)) \<and>
           (\<forall>i < length rs.
              link (rs ! i)
                = link (entry_item env district_label
                         (filter (survives strict_istanbul) (py_take limit sorted_entries) ! i)))"
proof -
  from fetch_google_news_fresh_items [OF assms] obtain sorted_entries where
    srt: "py_sorted_reverse published_key (feedparser_parse env (search_url env query))
            = Inr sorted_entries"
    and len: "length rs
                = length (filter (survives strict_istanbul) (py_take limit sorted_entries))"
    and links: "map link rs
             = map resolved_link (filter (survives strict_istanbul) (py_take limit sorted_entries))"
    by blast
  let ?es = "filter (survives strict_istanbul) (py_take limit sorted_entries)"
  have "link (rs ! i) = link (entry_item env district_label (?es ! i))" if "i < length rs" for i
  proof -
    have "link (rs ! i) = map link rs ! i"
      using that by simp
    also have "\<dots> = map resolved_link ?es ! i"
      by (simp only: links)
    also have "\<dots> = resolved_link (?es ! i)"
      using that len by simp
    finally show ?thesis
      by (simp add: entry_item_def)
  qed
  then show ?thesis
    using srt len by blast
qed

text \<open>
  C3, as the claim states it, makes the link of every item a non-empty string. An entry
  without link gives an item whose link is the empty string: \<open>or ""\<close> at line 202
  turns the absent link into \<open>""\<close>, which \<open>decode_url\<close> returns unchanged.
\<close>

theorem absent_link_counterexample:
  "returned (fetch_google_news (offline_env [entry_undated]) 0 0 (u ''q'') (u ''Pendik'') 30
               False Map.empty)
     = Inr [\<lparr>title = u ''Fatih haber'', link = [], image = None, source = u ''Haber'',
              date = u ''--:--'', district = u ''Pendik''\<rparr>]"
  by (simp add: eval_defs)

text \<open>
  C3 (amended). The loop over the entries never raises and returns, in order, one item
  for each entry that passes the filter. The link of the item of an entry is what
  \<open>decode_url\<close> returns for the raw link of that entry, the empty string standing for an
  absent one; it is the raw link whenever the body of \<open>decode_url\<close> raises; and it is
  empty exactly when the raw link of that entry is absent or empty. In a call that
  fetches the feed, the item at each place of the result has the link of the entry at the
  same place among the entries kept.
\<close>

theorem item_link_resolved:
  "(\<forall>es. build_results env strict_istanbul district_label es
            = Inr (map (entry_item env district_label) (filter (survives strict_istanbul) es))) \<and>
   (\<forall>e. decode_url (or_empty (e_link e)) = Inr (link (entry_item env district_label e)) \<and>
        (link (entry_item env district_label e) = [] \<longleftrightarrow>
           e_link e = None \<or> e_link e = Some []) \<and>
        (\<forall>err. decode_url_try (or_empty (e_link e)) = Inl err \<longrightarrow>
           link (entry_item env district_label e) = or_empty (e_link e))) \<and>
   (requests (fetch_google_news env now_get now_set query district_label limit
                strict_istanbul CACHE) \<noteq> [] \<and>
    returned (fetch_google_news env now_get now_set query district_label limit
                strict_istanbul CACHE) = Inr rs \<longrightarrow>
      (\<exists>sorted_entries.
         py_sorted_reverse published_key (feedparser_parse env (search_url env query))
           = Inr sorted_entries \<and>
         length rs = length (filter (survives strict_istanbul) (py_take limit sorted_entries)) \<and>
         (\<forall>i < length rs.
            link (rs ! i)
              = link (entry_item env district_label
                       (filter (survives strict_istanbul) (py_take limit sorted_entries) ! i)))))"
proof -
  have loop: "\<forall>es. build_results env strict_istanbul district_label es
            = Inr (map (entry_item env district_label) (filter (survives strict_istanbul) es))"
    by (simp add: build_results_map)
  have each: "\<forall>e. decode_url (or_empty (e_link e)) = Inr (link (entry_item env district_label e)) \<and>
        (link (entry_item env district_label e) = [] \<longleftrightarrow>
           e_link e = None \<or> e_link e = Some []) \<and>
        (\<forall>err. decode_url_try (or_empty (e_link e)) = Inl err \<longrightarrow>
           link (entry_item env district_label e) = or_empty (e_link e))"
    using entry_item_link by blast
  have fresh: "requests (fetch_google_news env now_get now_set query district_label limit
                strict_istanbul CACHE) \<noteq> [] \<and>
    returned (fetch_google_news env now_get now_set query district_label limit
                strict_istanbul CACHE) = Inr rs \<longrightarrow>
      (\<exists>sorted_entries.
         py_sorted_reverse published_key (feedparser_parse env (search_url env query))
           = Inr sorted_entries \<and>
         length rs = length (filter (survives strict_istanbul) (py_take limit sorted_entries)) \<and>
         (\<forall>i < length rs.
            link (rs ! i)
              = link (entry_item env district_label
                       (filter (survives strict_istanbul) (py_take limit sorted_entries) ! i))))"
    using fetch_google_news_fresh_links by blast
  show ?thesis
    using loop each fresh by (intro conjI) assumption+
qed

text \<open>
  The feed of one entry without link, fetched without the strict filter: the theorem
  gives the entry kept at place 0 and the link of its item, the empty string.
\<close>

theorem item_link_resolved_witness:
  "requests (fetch_google_news (offline_env [entry_undated]) 0 0 (u ''q'') (u ''Pendik'') 30
               False Map.empty) \<noteq> [] \<and>
   returned (fetch_google_news (offline_env [entry_undated]) 0 0 (u ''q'') (u ''Pendik'') 30
               False Map.empty)
     = Inr [\<lparr>title = u ''Fatih haber'', link = [], image = None, source = u ''Haber'',
              date = u ''--:--'', district = u ''Pendik''\<rparr>] \<and>
   link (entry_item (offline_env [entry_undated]) (u ''Pendik'') entry_undated) = [] \<and>
   decode_url (or_empty (e_link entry_undated)) = Inr []"
proof -
  let ?F = "fetch_google_news (offline_env [entry_undated]) 0 0 (u ''q'') (u ''Pendik'') 30
              False Map.empty"
  let ?rs = "[\<lparr>title = u ''Fatih haber'', link = [], image = None, source = u ''Haber'',
              date = u ''--:--'', district = u ''Pendik''\<rparr>]"
  have ret: "returned ?F = Inr ?rs"
    by (simp add: eval_defs)
  have req: "requests ?F \<noteq> []"
    by (simp add: fetch_google_news_def fetch_fresh_def cache_get_def Let_def
          split: sum.split)
  have feed: "feedparser_parse (offline_env [entry_undated])
                (search_url (offline_env [entry_undated]) (u ''q'')) = [entry_undated]"
    by (simp add: offline_env_def)
  have srt: "py_sorted_reverse published_key [entry_undated] = Inr [entry_undated]"
    by (simp add: py_sorted_reverse_def)
  have keep: "filter (survives False) (py_take 30 [entry_undated]) = [entry_undated]"
    by (simp add: survives_def py_take_def)
  note T = item_link_resolved
      [where env = "offline_env [entry_undated]" and now_get = 0 and now_set = 0
         and query = "u ''q''" and district_label = "u ''Pendik''" and limit = 30
         and strict_istanbul = False and CACHE = Map.empty and rs = ?rs]
  note T_each = T [THEN conjunct2, THEN conjunct1, THEN spec, of entry_undated]
  note T_fresh = T [THEN conjunct2, THEN conjunct2]
  from T_fresh req ret obtain sorted_entries where
    s: "py_sorted_reverse published_key
          (feedparser_parse (offline_env [entry_undated])
             (search_url (offline_env [entry_undated]) (u ''q''))) = Inr sorted_entries"
    and l: "\<forall>i < length ?rs.
            link (?rs ! i)
              = link (entry_item (offline_env [entry_undated]) (u ''Pendik'')
                       (filter (survives False) (py_take 30 sorted_entries) ! i))"
    by blast
  have "sorted_entries = [entry_undated]"
    using s feed srt by simp
  with l keep have empty: "link (entry_item (offline_env [entry_undated]) (u ''Pendik'')
                                   entry_undated) = []"
    by simp
  have "decode_url (or_empty (e_link entry_undated)) = Inr []"
    using T_each empty by simp
  with req ret empty show ?thesis
    by simp
qed

subsection \<open>The cache key\<close>












subsection \<open>The caches that arise\<close>













subsection \<open>The bound\<close>




end
